theory Spec2Isabelle
  imports Complex_Main "HOL-Library.AList" "HOL-Library.Product_Lexorder"
begin

section \<open>Data model\<close>

text \<open>
  The recommendation engine (\<^verbatim>\<open>backend/utils/recommender.js\<close>, class
  \<^verbatim>\<open>RecommendationEngine\<close>) works on Mongoose documents and on two in-memory
  JavaScript \<^verbatim>\<open>Map\<close>s. JavaScript numbers are modelled as real numbers, product ids
  as integers (every caller passes \<^verbatim>\<open>parseInt(...)\<close> or a stored \<^verbatim>\<open>product_id\<close>),
  user ids as strings (\<^verbatim>\<open>req.user._id.toString()\<close>).

  The attributes that a catalog product and its feature entry share are the base
  record; \<^verbatim>\<open>productSchema\<close> and the object stored by \<^verbatim>\<open>buildProductFeatures\<close>
  extend it. Schema fields that the engine never reads (stock, weight, dimensions,
  release date, sale price, image, tags) are left out.
\<close>

record attrs =
  category :: string
  subcategory :: string
  price :: real
  rating :: real
  is_featured :: bool
  is_on_sale :: bool
  manufacturer :: string

record product = attrs +
  product_id :: int
  product_name :: string
  description :: string
  view_count :: nat
  like_count :: nat
  purchase_count :: nat

record features = attrs +
  textIndex :: nat

text \<open>One element of \<^verbatim>\<open>userSchema.interactions\<close>; the type is kept as the string the
  caller sent, the timestamp as milliseconds; the fields carry the prefix \<open>i_\<close>.\<close>

record interaction =
  i_productId :: int
  i_type :: string
  i_timestamp :: int
  i_rating :: "real option"

record user =
  user_id :: string
  interactions :: "interaction list"

text \<open>The objects the engine returns: the product's own fields (the spread
  \<^verbatim>\<open>...product.toObject()\<close>, kept together as \<open>item\<close>) with a score and a tag.
  Only the hybrid mode sets \<^verbatim>\<open>combined_score\<close>; on every other object the field is
  absent (\<open>None\<close>).\<close>

datatype rec_type = content_based | collaborative | hybrid | fallback

record recommendation =
  item :: product
  similarity_score :: real
  recommendation_type :: rec_type
  combined_score :: "real option"

text \<open>
  The database behind the Mongoose models. Every query is a promise that may reject;
  which kinds of call reject is part of the environment (\<open>rejects\<close>).
\<close>

datatype db_call =
  ProductFindOne | ProductFindNe | ProductFindIn | ProductFindSorted
  | UserFindById | UserFind | UserSave | ProductSave

record database =
  products :: "product list"
  users :: "user list"
  rejects :: "db_call \<Rightarrow> bool"

text \<open>
  The engine object. \<open>tfidf\<close> stands for the method \<^verbatim>\<open>this.tfidf.tfidf(i, j)\<close> of the
  \<^verbatim>\<open>natural\<close> package's \<^verbatim>\<open>TfIdf\<close> index, which is not code of this repository: it is
  a parameter of the state. \<open>userItemMatrix\<close> is a \<^verbatim>\<open>Map\<close> of \<^verbatim>\<open>Map\<close>s; both are
  association lists in insertion order, because the code iterates over them.
\<close>

record engine =
  tfidf :: "nat \<Rightarrow> nat \<Rightarrow> real"
  productFeatures :: "int \<rightharpoonup> features"
  userItemMatrix :: "(string \<times> (int \<times> real) list) list"

text \<open>The state the operations run in; \<open>now\<close> is the clock read by \<^verbatim>\<open>new Date()\<close>.\<close>

record world =
  db :: database
  eng :: engine
  now :: int

datatype error = DbError | ValidationError | TypeError

section \<open>JavaScript and Mongoose primitives\<close>

text \<open>\<^verbatim>\<open>m.get(k) || 0\<close> on a \<^verbatim>\<open>Map\<close> of numbers.\<close>

definition get_or_0 :: "('k \<times> real) list \<Rightarrow> 'k \<Rightarrow> real" where
  "get_or_0 m k = (case map_of m k of None \<Rightarrow> 0 | Some v \<Rightarrow> v)"

text \<open>\<^verbatim>\<open>m.has(k)\<close>.\<close>

definition has :: "('k \<times> 'v) list \<Rightarrow> 'k \<Rightarrow> bool" where
  "has m k = (k \<in> set (map fst m))"

text \<open>\<^verbatim>\<open>xs.sort((a, b) => f(b) - f(a))\<close>: a stable sort, largest \<open>f\<close> first.\<close>

definition sort_desc :: "('a \<Rightarrow> real) \<Rightarrow> 'a list \<Rightarrow> 'a list" where
  "sort_desc f xs = sort_key (\<lambda>x. - f x) xs"

text \<open>\<^verbatim>\<open>try { body } catch (error) { handler }\<close>: an operation ends in a thrown error
  (\<open>Inl\<close>) or in a returned value (\<open>Inr\<close>); the handler may throw as well.\<close>

definition try_catch :: "error + 'a \<Rightarrow> (error \<Rightarrow> error + 'a) \<Rightarrow> error + 'a" where
  "try_catch body handler = (case body of Inl e \<Rightarrow> handler e | Inr v \<Rightarrow> Inr v)"

text \<open>A database call of kind \<open>c\<close> whose answer would be \<open>v\<close>.\<close>

definition query :: "database \<Rightarrow> db_call \<Rightarrow> 'a \<Rightarrow> error + 'a" where
  "query d c v = (if rejects d c then Inl DbError else Inr v)"

text \<open>\<^verbatim>\<open>await\<close>: a rejection is thrown, otherwise the rest runs on the value.\<close>

definition await :: "error + 'a \<Rightarrow> ('a \<Rightarrow> error + 'b) \<Rightarrow> error + 'b" where
  "await m k = (case m of Inl e \<Rightarrow> Inl e | Inr v \<Rightarrow> k v)"

text \<open>\<^verbatim>\<open>xs.map(f)\<close> where \<open>f\<close> may throw: the first throw ends the map.\<close>

fun map_throw :: "('a \<Rightarrow> error + 'b) \<Rightarrow> 'a list \<Rightarrow> error + 'b list" where
  "map_throw f [] = Inr []"
| "map_throw f (x # xs) =
     (case f x of Inl e \<Rightarrow> Inl e
      | Inr y \<Rightarrow> (case map_throw f xs of Inl e \<Rightarrow> Inl e | Inr ys \<Rightarrow> Inr (y # ys)))"

text \<open>\<^verbatim>\<open>Product.findOne({ product_id: pid })\<close>\<close>

definition Product_findOne :: "database \<Rightarrow> int \<Rightarrow> product option" where
  "Product_findOne d pid = find (\<lambda>p. product_id p = pid) (products d)"

text \<open>\<^verbatim>\<open>User.findById(userId)\<close>\<close>

definition User_findById :: "database \<Rightarrow> string \<Rightarrow> user option" where
  "User_findById d uid = find (\<lambda>u. user_id u = uid) (users d)"

text \<open>\<^verbatim>\<open>.limit(n)\<close> of a MongoDB cursor: a limit of 0 is no limit.\<close>

definition limit_cursor :: "nat \<Rightarrow> 'a list \<Rightarrow> 'a list" where
  "limit_cursor n xs = (if n = 0 then xs else take n xs)"

text \<open>\<^verbatim>\<open>Product.find({}).sort({ rating: -1, view_count: -1, is_featured: -1 })\<close>:
  the three keys compared in that order, each descending.\<close>

definition popularity_key :: "product \<Rightarrow> real \<times> int \<times> bool" where
  "popularity_key p = (- rating p, - int (view_count p), \<not> is_featured p)"

section \<open>The engine\<close>

text \<open>\<^verbatim>\<open>getInteractionWeight(type)\<close>: \<^verbatim>\<open>weights[type] || 1\<close>, for a type
  that is a key of the table or no property of an object at all.\<close>

definition getInteractionWeight :: "string \<Rightarrow> real" where
  "getInteractionWeight t =
     (if t = ''view'' then 1
      else if t = ''like'' then 3
      else if t = ''cart_add'' then 5
      else if t = ''purchase'' then 10
      else 1)"

text \<open>\<^verbatim>\<open>calculateProductSimilarity(productId1, productId2)\<close>\<close>

definition calculateProductSimilarity :: "engine \<Rightarrow> int \<Rightarrow> int \<Rightarrow> real" where
  "calculateProductSimilarity e productId1 productId2 =
     (case (productFeatures e productId1, productFeatures e productId2) of
        (Some features1, Some features2) \<Rightarrow>
          (let similarity = 0;
               textSimilarity = tfidf e (textIndex features1) (textIndex features2);
               similarity = similarity + textSimilarity * 0.4;
               similarity =
                 (if category features1 = category features2
                  then (if subcategory features1 = subcategory features2
                        then similarity + 0.3 + 0.1 else similarity + 0.3)
                  else similarity);
               priceDiff = \<bar>price features1 - price features2\<bar>;
               maxPrice = max (price features1) (price features2);
               priceSimilarity = (if maxPrice > 0 then 1 - priceDiff / maxPrice else 1);
               similarity = similarity + priceSimilarity * 0.1;
               ratingDiff = \<bar>rating features1 - rating features2\<bar>;
               ratingSimilarity = 1 - ratingDiff / 5;
               similarity = similarity + ratingSimilarity * 0.1
           in min similarity 1)
      | _ \<Rightarrow> 0)"

text \<open>\<^verbatim>\<open>getFallbackRecommendations(limit)\<close>: the \<^verbatim>\<open>try\<close> block, then the function
  with its \<^verbatim>\<open>catch\<close>, which returns the empty list.\<close>

definition getFallbackRecommendations_body :: "world \<Rightarrow> nat \<Rightarrow> error + recommendation list" where
  "getFallbackRecommendations_body w limit =
     await (query (db w) ProductFindSorted
              (limit_cursor limit (sort_key popularity_key (products (db w)))))
       (\<lambda>products. Inr (map (\<lambda>product.
           \<lparr>item = product, similarity_score = rating product / 5,
            recommendation_type = fallback, combined_score = None\<rparr>) products))"

definition getFallbackRecommendations :: "world \<Rightarrow> nat \<Rightarrow> error + recommendation list" where
  "getFallbackRecommendations w limit =
     try_catch (getFallbackRecommendations_body w limit) (\<lambda>error. Inr [])"

text \<open>The loop of \<^verbatim>\<open>getContentBasedRecommendations\<close> that pushes every product with a
  positive similarity to the target.\<close>

fun similarities_loop :: "engine \<Rightarrow> int \<Rightarrow> product list \<Rightarrow> (product \<times> real) list" where
  "similarities_loop e target [] = []"
| "similarities_loop e target (product # rest) =
     (let similarity = calculateProductSimilarity e target (product_id product)
      in if similarity > 0 then (product, similarity) # similarities_loop e target rest
         else similarities_loop e target rest)"

text \<open>\<^verbatim>\<open>getContentBasedRecommendations\<close> from the test of \<^verbatim>\<open>targetProduct\<close> on
  (the part both branches of \<^verbatim>\<open>if (productId)\<close> reach).\<close>

definition rank_similar_to ::
  "world \<Rightarrow> product option \<Rightarrow> nat \<Rightarrow> error + recommendation list" where
  "rank_similar_to w targetProduct limit =
     (case targetProduct of
        None \<Rightarrow> getFallbackRecommendations w limit
      | Some target \<Rightarrow>
          (case productFeatures (eng w) (product_id target) of
             None \<Rightarrow> getFallbackRecommendations w limit
           | Some targetFeatures \<Rightarrow>
               await (query (db w) ProductFindNe
                        (filter (\<lambda>p. product_id p \<noteq> product_id target) (products (db w))))
                 (\<lambda>allProducts.
                    let similarities = similarities_loop (eng w) (product_id target) allProducts
                    in Inr (map (\<lambda>(product, similarity).
                              \<lparr>item = product, similarity_score = similarity,
                               recommendation_type = content_based, combined_score = None\<rparr>)
                            (take limit (sort_desc snd similarities))))))"

text \<open>\<^verbatim>\<open>getContentBasedRecommendations(userId, productId = null, limit)\<close>: the
  \<^verbatim>\<open>try\<close> block, then the function with its \<^verbatim>\<open>catch\<close>. The test
  \<^verbatim>\<open>if (productId)\<close> is false for \<^verbatim>\<open>null\<close> and for the number 0.\<close>

definition getContentBasedRecommendations_body ::
  "world \<Rightarrow> string \<Rightarrow> int option \<Rightarrow> nat \<Rightarrow> error + recommendation list" where
  "getContentBasedRecommendations_body w userId productId limit =
     (case (if productId = Some 0 then None else productId) of
        Some pid \<Rightarrow>
          await (query (db w) ProductFindOne (Product_findOne (db w) pid))
            (\<lambda>targetProduct. rank_similar_to w targetProduct limit)
      | None \<Rightarrow>
          await (query (db w) UserFindById (User_findById (db w) userId))
            (\<lambda>user. case user of
               None \<Rightarrow> getFallbackRecommendations w limit
             | Some user \<Rightarrow>
                 if length (interactions user) = 0 then getFallbackRecommendations w limit
                 else
                   (let sortedInteractions =
                          sort_desc (\<lambda>i. getInteractionWeight (i_type i))
                            (sort_desc (\<lambda>i. real_of_int (i_timestamp i)) (interactions user))
                    in case sortedInteractions of
                         [] \<Rightarrow> Inl TypeError
                       | first # _ \<Rightarrow>
                           await (query (db w) ProductFindOne
                                    (Product_findOne (db w) (i_productId first)))
                             (\<lambda>targetProduct. rank_similar_to w targetProduct limit))))"

definition getContentBasedRecommendations ::
  "world \<Rightarrow> string \<Rightarrow> int option \<Rightarrow> nat \<Rightarrow> error + recommendation list" where
  "getContentBasedRecommendations w userId productId limit =
     try_catch (getContentBasedRecommendations_body w userId productId limit)
       (\<lambda>error. getFallbackRecommendations w limit)"

text \<open>\<^verbatim>\<open>calculateUserSimilarity(interactions1, interactions2)\<close>; \<open>commonItems\<close> is a
  \<^verbatim>\<open>Set\<close>, so a key enters it once.\<close>

definition calculateUserSimilarity :: "(int \<times> real) list \<Rightarrow> (int \<times> real) list \<Rightarrow> real" where
  "calculateUserSimilarity interactions1 interactions2 =
     (let commonItems = remdups (filter (has interactions2) (map fst interactions1))
      in if length commonItems = 0 then 0
         else
           (let (dotProduct, norm1, norm2) =
                  fold (\<lambda>productId (dotProduct, norm1, norm2).
                          let weight1 = get_or_0 interactions1 productId;
                              weight2 = get_or_0 interactions2 productId
                          in (dotProduct + weight1 * weight2,
                              norm1 + weight1 * weight1,
                              norm2 + weight2 * weight2))
                    commonItems (0, 0, 0)
            in if norm1 = 0 \<or> norm2 = 0 then 0
               else dotProduct / (sqrt norm1 * sqrt norm2)))"

text \<open>The loop of \<^verbatim>\<open>findSimilarUsers\<close> over the entries of the matrix.\<close>

fun similar_users_loop ::
  "string \<Rightarrow> (int \<times> real) list \<Rightarrow> (string \<times> (int \<times> real) list) list \<Rightarrow> (string \<times> real) list"
where
  "similar_users_loop userId userInteractions [] = []"
| "similar_users_loop userId userInteractions ((otherUserId, otherInteractions) # rest) =
     (if otherUserId \<noteq> userId \<and> length otherInteractions > 0
      then (let similarity = calculateUserSimilarity userInteractions otherInteractions
            in if similarity > 0.1
               then (otherUserId, similarity) # similar_users_loop userId userInteractions rest
               else similar_users_loop userId userInteractions rest)
      else similar_users_loop userId userInteractions rest)"

text \<open>\<^verbatim>\<open>findSimilarUsers(userId, limit)\<close>\<close>

definition findSimilarUsers :: "engine \<Rightarrow> string \<Rightarrow> nat \<Rightarrow> (string \<times> real) list" where
  "findSimilarUsers e userId limit =
     (case map_of (userItemMatrix e) userId of
        None \<Rightarrow> []
      | Some userInteractions \<Rightarrow>
          take limit (sort_desc snd
            (similar_users_loop userId userInteractions (userItemMatrix e))))"

text \<open>The two nested loops of \<^verbatim>\<open>getCollaborativeRecommendations\<close> that fill the
  \<^verbatim>\<open>recommendations\<close> map: the inner one over a neighbour's entries, the outer one
  over the neighbours.\<close>

definition add_neighbour_items ::
  "(int \<times> real) list \<Rightarrow> real \<Rightarrow> (int \<times> real) list \<Rightarrow> (int \<times> real) list \<Rightarrow> (int \<times> real) list"
where
  "add_neighbour_items userInteractions similarity similarUserInteractions recommendations =
     fold (\<lambda>(productId, weight) recommendations.
             if \<not> has userInteractions productId
             then (let currentScore = get_or_0 recommendations productId
                   in AList.update productId (currentScore + weight * similarity) recommendations)
             else recommendations)
       similarUserInteractions recommendations"

definition collect_recommendations ::
  "engine \<Rightarrow> (int \<times> real) list \<Rightarrow> (string \<times> real) list \<Rightarrow> (int \<times> real) list" where
  "collect_recommendations e userInteractions similarUsers =
     fold (\<lambda>(similarUserId, similarity) recommendations.
             case map_of (userItemMatrix e) similarUserId of
               None \<Rightarrow> recommendations
             | Some similarUserInteractions \<Rightarrow>
                 add_neighbour_items userInteractions similarity
                   similarUserInteractions recommendations)
       similarUsers []"

text \<open>\<^verbatim>\<open>getCollaborativeRecommendations(userId, limit)\<close>: the \<^verbatim>\<open>try\<close> block,
  then the function with its \<^verbatim>\<open>catch\<close>. \<^verbatim>\<open>parseInt\<close> of an integer key is the
  key; \<^verbatim>\<open>product.toObject()\<close> on a product that the query did not return throws a
  \<^verbatim>\<open>TypeError\<close>; the final filter drops an object whose \<^verbatim>\<open>product_id\<close> is 0.\<close>

definition getCollaborativeRecommendations_body ::
  "world \<Rightarrow> string \<Rightarrow> nat \<Rightarrow> error + recommendation list" where
  "getCollaborativeRecommendations_body w userId limit =
     (case map_of (userItemMatrix (eng w)) userId of
        None \<Rightarrow> getFallbackRecommendations w limit
      | Some userInteractions \<Rightarrow>
          if length userInteractions = 0 then getFallbackRecommendations w limit
          else
            (let similarUsers = findSimilarUsers (eng w) userId 10
             in if length similarUsers = 0 then getFallbackRecommendations w limit
                else
                  (let recommendations =
                         collect_recommendations (eng w) userInteractions similarUsers;
                       sortedRecommendations = take limit (sort_desc snd recommendations);
                       productIds = map fst sortedRecommendations
                   in await (query (db w) ProductFindIn
                               (filter (\<lambda>p. product_id p \<in> set productIds) (products (db w))))
                        (\<lambda>products.
                           await (map_throw (\<lambda>(productId, score).
                                    case find (\<lambda>p. product_id p = productId) products of
                                      None \<Rightarrow> Inl TypeError
                                    | Some product \<Rightarrow>
                                        Inr \<lparr>item = product, similarity_score = score,
                                             recommendation_type = collaborative,
                                             combined_score = None\<rparr>)
                                    sortedRecommendations)
                             (\<lambda>items.
                                Inr (filter (\<lambda>r. product_id (item r) \<noteq> 0) items))))))"

definition getCollaborativeRecommendations ::
  "world \<Rightarrow> string \<Rightarrow> nat \<Rightarrow> error + recommendation list" where
  "getCollaborativeRecommendations w userId limit =
     try_catch (getCollaborativeRecommendations_body w userId limit)
       (\<lambda>error. getFallbackRecommendations w limit)"

text \<open>The two \<^verbatim>\<open>forEach\<close> loops of \<^verbatim>\<open>getHybridRecommendations\<close> that fill the
  \<^verbatim>\<open>combinedRecs\<close> map, keyed by \<^verbatim>\<open>rec.product_id\<close>.\<close>

definition add_content_recs ::
  "recommendation list \<Rightarrow> (int \<times> recommendation) list \<Rightarrow> (int \<times> recommendation) list" where
  "add_content_recs contentRecs combinedRecs =
     fold (\<lambda>rec combinedRecs.
             AList.update (product_id (item rec))
               (rec\<lparr>combined_score := Some (similarity_score rec * 0.6),
                    recommendation_type := hybrid\<rparr>)
               combinedRecs)
       contentRecs combinedRecs"

definition add_collab_recs ::
  "recommendation list \<Rightarrow> (int \<times> recommendation) list \<Rightarrow> (int \<times> recommendation) list" where
  "add_collab_recs collabRecs combinedRecs =
     fold (\<lambda>rec combinedRecs.
             case map_of combinedRecs (product_id (item rec)) of
               Some existing \<Rightarrow>
                 AList.update (product_id (item rec))
                   (existing\<lparr>combined_score :=
                      map_option (\<lambda>c. c + similarity_score rec * 0.4) (combined_score existing)\<rparr>)
                   combinedRecs
             | None \<Rightarrow>
                 AList.update (product_id (item rec))
                   (rec\<lparr>combined_score := Some (similarity_score rec * 0.4),
                        recommendation_type := hybrid\<rparr>)
                   combinedRecs)
       collabRecs combinedRecs"

text \<open>The number a record is ranked by in the hybrid mode.\<close>

definition combined_of :: "recommendation \<Rightarrow> real" where
  "combined_of r = (case combined_score r of None \<Rightarrow> 0 | Some c \<Rightarrow> c)"

text \<open>\<^verbatim>\<open>Math.ceil(limit * 0.7)\<close>\<close>

definition sub_limit :: "nat \<Rightarrow> nat" where
  "sub_limit limit = nat \<lceil>real limit * 0.7\<rceil>"

text \<open>\<^verbatim>\<open>getHybridRecommendations(userId, limit)\<close>: the map built from the two
  lists, the \<^verbatim>\<open>try\<close> block, then the function with its \<^verbatim>\<open>catch\<close>.\<close>

definition combine_recs ::
  "recommendation list \<Rightarrow> recommendation list \<Rightarrow> (int \<times> recommendation) list" where
  "combine_recs contentRecs collabRecs =
     add_collab_recs collabRecs (add_content_recs contentRecs [])"

definition getHybridRecommendations_body ::
  "world \<Rightarrow> string \<Rightarrow> nat \<Rightarrow> error + recommendation list" where
  "getHybridRecommendations_body w userId limit =
     await (getContentBasedRecommendations w userId None (sub_limit limit))
       (\<lambda>contentRecs.
          await (getCollaborativeRecommendations w userId (sub_limit limit))
            (\<lambda>collabRecs.
               let combinedRecs = combine_recs contentRecs collabRecs
               in Inr (take limit (sort_desc combined_of (map snd combinedRecs)))))"

definition getHybridRecommendations ::
  "world \<Rightarrow> string \<Rightarrow> nat \<Rightarrow> error + recommendation list" where
  "getHybridRecommendations w userId limit =
     try_catch (getHybridRecommendations_body w userId limit)
       (\<lambda>error. getFallbackRecommendations w limit)"

text \<open>What \<^verbatim>\<open>save()\<close> validates on a pushed interaction (\<^verbatim>\<open>userSchema\<close>): the type
  is one of the \<^verbatim>\<open>enum\<close>, a rating that is given lies between 1 and 5.\<close>

definition interaction_types :: "string list" where
  "interaction_types = [''view'', ''like'', ''purchase'', ''cart_add'']"

definition valid_interaction :: "interaction \<Rightarrow> bool" where
  "valid_interaction i =
     (i_type i \<in> set interaction_types \<and>
      (case i_rating i of None \<Rightarrow> True | Some r \<Rightarrow> 1 \<le> r \<and> r \<le> 5))"

text \<open>\<^verbatim>\<open>user.addInteraction(productId, type, rating)\<close>: push, then \<^verbatim>\<open>save()\<close>. The
  push is on the fetched document; the stored user changes only when the save succeeds.\<close>

definition addInteraction ::
  "world \<Rightarrow> user \<Rightarrow> int \<Rightarrow> string \<Rightarrow> real option \<Rightarrow> error + world" where
  "addInteraction w u productId type given_rating =
     (let pushed = \<lparr>i_productId = productId, i_type = type, i_timestamp = now w,
                     i_rating = given_rating\<rparr>;
          saved = u\<lparr>interactions := interactions u @ [pushed]\<rparr>
      in if \<not> valid_interaction pushed then Inl ValidationError
         else if rejects (db w) UserSave then Inl DbError
         else Inr (w\<lparr>db := (db w)\<lparr>users :=
                 map (\<lambda>x. if user_id x = user_id u then saved else x) (users (db w))\<rparr>\<rparr>))"

text \<open>\<^verbatim>\<open>product.incrementViewCount()\<close> and its two siblings end in \<^verbatim>\<open>this.save()\<close>,
  which writes the document back under its id (\<^verbatim>\<open>product_id\<close> is unique).\<close>

definition save_product :: "world \<Rightarrow> product \<Rightarrow> error + world" where
  "save_product w p =
     (if rejects (db w) ProductSave then Inl DbError
      else Inr (w\<lparr>db := (db w)\<lparr>products :=
              map (\<lambda>x. if product_id x = product_id p then p else x) (products (db w))\<rparr>\<rparr>))"

text \<open>The body of the \<^verbatim>\<open>try\<close> block of \<^verbatim>\<open>updateUserInteraction\<close>. It returns the
  state it has reached together with the outcome, since what was written before a throw
  stays written.\<close>

definition updateUserInteraction_body ::
  "world \<Rightarrow> string \<Rightarrow> int \<Rightarrow> string \<Rightarrow> real option \<Rightarrow> (error + unit) \<times> world" where
  "updateUserInteraction_body w userId productId interactionType given_rating =
     (case query (db w) UserFindById (User_findById (db w) userId) of
        Inl e \<Rightarrow> (Inl e, w)
      | Inr None \<Rightarrow> (Inr (), w)
      | Inr (Some u) \<Rightarrow>
          (case addInteraction w u productId interactionType given_rating of
             Inl e \<Rightarrow> (Inl e, w)
           | Inr w1 \<Rightarrow>
               (let userInteractions =
                      (case map_of (userItemMatrix (eng w1)) userId of
                         None \<Rightarrow> [] | Some m \<Rightarrow> m);
                    weight = getInteractionWeight interactionType;
                    currentWeight = get_or_0 userInteractions productId;
                    userInteractions =
                      AList.update productId (currentWeight + weight) userInteractions;
                    w2 = w1\<lparr>eng := (eng w1)\<lparr>userItemMatrix :=
                            AList.update userId userInteractions (userItemMatrix (eng w1))\<rparr>\<rparr>
                in case query (db w2) ProductFindOne (Product_findOne (db w2) productId) of
                     Inl e \<Rightarrow> (Inl e, w2)
                   | Inr None \<Rightarrow> (Inr (), w2)
                   | Inr (Some p) \<Rightarrow>
                       (let incremented =
                              (if interactionType = ''view''
                               then Some (p\<lparr>view_count := view_count p + 1\<rparr>)
                               else if interactionType = ''like''
                               then Some (p\<lparr>like_count := like_count p + 1\<rparr>)
                               else if interactionType = ''purchase''
                               then Some (p\<lparr>purchase_count := purchase_count p + 1\<rparr>)
                               else None)
                        in case incremented of
                             None \<Rightarrow> (Inr (), w2)
                           | Some p' \<Rightarrow>
                               (case save_product w2 p' of
                                  Inl e \<Rightarrow> (Inl e, w2)
                                | Inr w3 \<Rightarrow> (Inr (), w3))))))"

text \<open>\<^verbatim>\<open>updateUserInteraction(userId, productId, interactionType, rating = null)\<close>:
  the \<^verbatim>\<open>catch\<close> block logs the error and the function returns \<^verbatim>\<open>undefined\<close>.\<close>

definition updateUserInteraction ::
  "world \<Rightarrow> string \<Rightarrow> int \<Rightarrow> string \<Rightarrow> real option \<Rightarrow> (error + unit) \<times> world" where
  "updateUserInteraction w userId productId interactionType given_rating =
     (case updateUserInteraction_body w userId productId interactionType given_rating of
        (Inl e, w') \<Rightarrow> (Inr (), w')
      | (Inr v, w') \<Rightarrow> (Inr v, w'))"

text \<open>\<^verbatim>\<open>buildUserItemMatrix()\<close>: one fresh inner map per stored user, set under the
  user's id; a rejected query is logged and leaves the matrix as it was.\<close>

definition user_vector :: "interaction list \<Rightarrow> (int \<times> real) list" where
  "user_vector events =
     fold (\<lambda>i userInteractions.
             let weight = getInteractionWeight (i_type i);
                 currentWeight = get_or_0 userInteractions (i_productId i)
             in AList.update (i_productId i) (currentWeight + weight) userInteractions)
       events []"

definition buildUserItemMatrix :: "world \<Rightarrow> world" where
  "buildUserItemMatrix w =
     (case query (db w) UserFind (users (db w)) of
        Inl e \<Rightarrow> w
      | Inr us \<Rightarrow>
          w\<lparr>eng := (eng w)\<lparr>userItemMatrix :=
               fold (\<lambda>u m. AList.update (user_id u) (user_vector (interactions u)) m)
                 us (userItemMatrix (eng w))\<rparr>\<rparr>)"

section \<open>The similarity terms as the specification words them\<close>

text \<open>
  The five terms of the content similarity in the words of the specification: category
  equality, subcategory equality counted only under equal categories, price closeness
  (1 when both prices are zero), rating closeness, and their weighted sum with the text
  term \<open>t\<close>. \<open>valid_attrs\<close> is what \<^verbatim>\<open>productSchema\<close> validates: a price of at
  least 0 and a rating between 0 and 5.
\<close>

definition category_term :: "'a attrs_scheme \<Rightarrow> 'b attrs_scheme \<Rightarrow> real" where
  "category_term f1 f2 = (if category f1 = category f2 then 1 else 0)"

definition subcategory_term :: "'a attrs_scheme \<Rightarrow> 'b attrs_scheme \<Rightarrow> real" where
  "subcategory_term f1 f2 =
     (if category f1 = category f2 \<and> subcategory f1 = subcategory f2 then 1 else 0)"

definition price_closeness :: "'a attrs_scheme \<Rightarrow> 'b attrs_scheme \<Rightarrow> real" where
  "price_closeness f1 f2 =
     (if price f1 = 0 \<and> price f2 = 0 then 1
      else 1 - \<bar>price f1 - price f2\<bar> / max (price f1) (price f2))"

definition rating_closeness :: "'a attrs_scheme \<Rightarrow> 'b attrs_scheme \<Rightarrow> real" where
  "rating_closeness f1 f2 = 1 - \<bar>rating f1 - rating f2\<bar> / 5"

definition weighted_sum :: "real \<Rightarrow> features \<Rightarrow> features \<Rightarrow> real" where
  "weighted_sum t f1 f2 =
     0.40 * t + 0.30 * category_term f1 f2 + 0.10 * subcategory_term f1 f2
     + 0.10 * price_closeness f1 f2 + 0.10 * rating_closeness f1 f2"

definition valid_attrs :: "'a attrs_scheme \<Rightarrow> bool" where
  "valid_attrs f = (0 \<le> price f \<and> 0 \<le> rating f \<and> rating f \<le> 5)"

section \<open>Rankings\<close>

text \<open>
  A list in descending order of score; the ranking as the specification words it, with
  ties between equal scores broken by ascending item id; and what the operations keep:
  descending order, and at most \<open>limit\<close> records for a positive limit.
\<close>

definition sorted_by_score_desc :: "recommendation list \<Rightarrow> bool" where
  "sorted_by_score_desc recs =
     sorted_wrt (\<lambda>a b. similarity_score a \<ge> similarity_score b) recs"

definition ranked_by_score_then_id :: "recommendation list \<Rightarrow> bool" where
  "ranked_by_score_then_id recs =
     sorted_wrt (\<lambda>a b. similarity_score a > similarity_score b
                    \<or> (similarity_score a = similarity_score b
                        \<and> product_id (item a) \<le> product_id (item b))) recs"

definition ranked_within :: "nat \<Rightarrow> recommendation list \<Rightarrow> bool" where
  "ranked_within limit recs =
     (sorted_by_score_desc recs \<and> (0 < limit \<longrightarrow> length recs \<le> limit))"

section \<open>The hybrid blend\<close>

text \<open>\<^verbatim>\<open>rec.product_id\<close>, the key of the map.\<close>

abbreviation rec_id :: "recommendation \<Rightarrow> int" where
  "rec_id r \<equiv> product_id (item r)"

text \<open>The combined score that the map built by \<^verbatim>\<open>getHybridRecommendations\<close> holds for
  an item: \<open>None\<close> when the item has no entry.\<close>

definition combined_score_of_item :: "(int \<times> recommendation) list \<Rightarrow> int \<Rightarrow> real option" where
  "combined_score_of_item combinedRecs p =
     (case map_of combinedRecs p of None \<Rightarrow> None | Some r \<Rightarrow> combined_score r)"

section \<open>The cold start\<close>

text \<open>
  A user with zero recorded interactions: no stored user of that id or one with an empty
  interaction list, and no row or an empty row in the matrix. \<open>fallback_rec\<close> is the
  object \<^verbatim>\<open>getFallbackRecommendations\<close> returns for a product; \<open>blended_alone\<close> is
  what the hybrid map holds for a record that both input lists contain with the same
  score.
\<close>

definition no_interactions :: "world \<Rightarrow> string \<Rightarrow> bool" where
  "no_interactions w userId =
     ((case User_findById (db w) userId of None \<Rightarrow> True | Some u \<Rightarrow> interactions u = [])
      \<and> (case map_of (userItemMatrix (eng w)) userId of None \<Rightarrow> True | Some row \<Rightarrow> row = []))"

definition blended_alone :: "recommendation \<Rightarrow> recommendation" where
  "blended_alone r =
     r\<lparr>combined_score := Some (similarity_score r * 0.6 + similarity_score r * 0.4),
       recommendation_type := hybrid\<rparr>"

definition fallback_rec :: "product \<Rightarrow> recommendation" where
  "fallback_rec p = \<lparr>item = p, similarity_score = rating p / 5,
                      recommendation_type = fallback, combined_score = None\<rparr>"

section \<open>The text measure of the natural package\<close>

text \<open>
  The \<^verbatim>\<open>natural\<close> package is not code of this repository. Its method
  \<^verbatim>\<open>TfIdf.tfidf(terms, d)\<close> takes terms and the index of one document: terms that are
  no array are turned into a string and tokenized, and the result is the sum over the
  tokens of \<open>tf * idf\<close>, where \<open>tf\<close> is the count of the token in document \<open>d\<close> and
  \<open>idf\<close> is \<open>1 + ln (N / (1 + n))\<close> for \<open>N\<close> documents of which \<open>n\<close> hold the token.
  A document is the table of its term counts. The engine passes a document index as the
  terms; its string is one token, the decimal digits of the index (\<open>decimal\<close>).
\<close>

type_synonym document = "(string \<times> nat) list"

fun decimal :: "nat \<Rightarrow> string" where
  "decimal n =
     (if n < 10 then [''0123456789'' ! n]
      else decimal (n div 10) @ [''0123456789'' ! (n mod 10)])"

declare decimal.simps [simp del]

definition tf :: "string \<Rightarrow> document \<Rightarrow> real" where
  "tf term document = (case map_of document term of None \<Rightarrow> 0 | Some n \<Rightarrow> real n)"

definition documentHasTerm :: "string \<Rightarrow> document \<Rightarrow> bool" where
  "documentHasTerm term document =
     (case map_of document term of None \<Rightarrow> False | Some n \<Rightarrow> n > 0)"

definition idf :: "document list \<Rightarrow> string \<Rightarrow> real" where
  "idf documents term =
     (let docsWithTerm = length (filter (documentHasTerm term) documents)
      in 1 + ln (real (length documents) / (1 + real docsWithTerm)))"

definition natural_tfidf :: "document list \<Rightarrow> nat \<Rightarrow> nat \<Rightarrow> real" where
  "natural_tfidf documents i d =
     (if d < length documents then tf (decimal i) (documents ! d) * idf documents (decimal i)
      else 0)"

section \<open>Example states\<close>

text \<open>The three-item catalog of the specification's scenario, indexed in order, with a
  text measure that is constantly 0.\<close>

definition mk_product :: "int \<Rightarrow> string \<Rightarrow> real \<Rightarrow> real \<Rightarrow> product" where
  "mk_product pid cat pr rt =
     \<lparr>category = cat, subcategory = ''general'', price = pr, rating = rt,
      is_featured = False, is_on_sale = False, manufacturer = ''acme'',
      product_id = pid, product_name = ''item'', description = ''an item'',
      view_count = 0, like_count = 0, purchase_count = 0\<rparr>"

text \<open>The entry \<^verbatim>\<open>buildProductFeatures\<close> stores for a product whose text is document
  \<open>i\<close> of the index.\<close>

definition features_of :: "product \<Rightarrow> nat \<Rightarrow> features" where
  "features_of p i =
     \<lparr>category = category p, subcategory = subcategory p, price = price p, rating = rating p,
      is_featured = is_featured p, is_on_sale = is_on_sale p, manufacturer = manufacturer p,
      textIndex = i\<rparr>"

definition item1 :: product where
  "item1 = mk_product 1 ''electronics'' 100 4"

definition item2 :: product where
  "item2 = mk_product 2 ''electronics'' 110 4.2"

definition item3 :: product where
  "item3 = mk_product 3 ''books'' 15 3"

definition catalog3 :: "product list" where
  "catalog3 = [item1, item2, item3]"

definition features1 :: features where
  "features1 = features_of item1 0"

definition features2 :: features where
  "features2 = features_of item2 1"

definition features3 :: features where
  "features3 = features_of item3 2"

definition engine3 :: engine where
  "engine3 = \<lparr>tfidf = (\<lambda>i j. 0),
              productFeatures = [1 \<mapsto> features1, 2 \<mapsto> features2, 3 \<mapsto> features3],
              userItemMatrix = []\<rparr>"

text \<open>The two users of the specification's scenario: A bought item 1; B liked item 1 and
  bought item 2. The matrix of \<open>world_ab\<close> is built from their stored interactions.\<close>

definition user_A :: user where
  "user_A = \<lparr>user_id = ''A'', interactions =
     [\<lparr>i_productId = 1, i_type = ''purchase'', i_timestamp = 1, i_rating = None\<rparr>]\<rparr>"

definition user_B :: user where
  "user_B = \<lparr>user_id = ''B'', interactions =
     [\<lparr>i_productId = 1, i_type = ''like'', i_timestamp = 1, i_rating = None\<rparr>,
      \<lparr>i_productId = 2, i_type = ''purchase'', i_timestamp = 2, i_rating = None\<rparr>]\<rparr>"

definition world_ab :: world where
  "world_ab = buildUserItemMatrix
     \<lparr>db = \<lparr>products = catalog3, users = [user_A, user_B], rejects = (\<lambda>c. False)\<rparr>,
      eng = engine3, now = 3\<rparr>"

text \<open>The same state with a database that rejects every call, and with a catalog from
  which item 2 has been removed.\<close>

definition world_down :: world where
  "world_down = world_ab\<lparr>db := (db world_ab)\<lparr>rejects := (\<lambda>c. True)\<rparr>\<rparr>"

definition world_missing :: world where
  "world_missing = world_ab\<lparr>db := (db world_ab)\<lparr>products := [item1, item3]\<rparr>\<rparr>"

text \<open>A state with user A alone.\<close>

definition world_solo :: world where
  "world_solo = buildUserItemMatrix
     \<lparr>db = \<lparr>products = catalog3, users = [user_A], rejects = (\<lambda>c. False)\<rparr>,
      eng = engine3, now = 3\<rparr>"

text \<open>A catalog in which items 3 and 2, stored in that order, differ in nothing but
  their id.\<close>

definition item2_books :: product where
  "item2_books = mk_product 2 ''books'' 15 3"

definition world_tie :: world where
  "world_tie =
     \<lparr>db = \<lparr>products = [item1, item3, item2_books], users = [], rejects = (\<lambda>c. False)\<rparr>,
      eng = \<lparr>tfidf = (\<lambda>i j. 0),
             productFeatures = [1 \<mapsto> features_of item1 0, 3 \<mapsto> features_of item3 1,
                                2 \<mapsto> features_of item2_books 2],
             userItemMatrix = []\<rparr>,
      now = 0\<rparr>"

text \<open>Two input lists of the blend: item 2 is in both, item 1 only in the content list,
  item 3 only in the collaborative list.\<close>

definition content_recs_ex :: "recommendation list" where
  "content_recs_ex =
     [\<lparr>item = item1, similarity_score = 1 / 2, recommendation_type = content_based,
       combined_score = None\<rparr>,
      \<lparr>item = item2, similarity_score = 1 / 5, recommendation_type = content_based,
       combined_score = None\<rparr>]"

definition collab_recs_ex :: "recommendation list" where
  "collab_recs_ex =
     [\<lparr>item = item2, similarity_score = 10, recommendation_type = collaborative,
       combined_score = None\<rparr>,
      \<lparr>item = item3, similarity_score = 4, recommendation_type = collaborative,
       combined_score = None\<rparr>]"

text \<open>A catalog of five items and no user.\<close>

definition item4 :: product where
  "item4 = mk_product 4 ''toys'' 20 4.5"

definition item5 :: product where
  "item5 = mk_product 5 ''toys'' 30 2"

definition world5 :: world where
  "world5 = \<lparr>db = \<lparr>products = [item1, item2, item3, item4, item5], users = [],
                    rejects = (\<lambda>c. False)\<rparr>,
             eng = engine3, now = 0\<rparr>"

text \<open>
  An index of eleven items whose text measure is the package's. Item 1, a tablet, is
  document 0 and holds the token \<^verbatim>\<open>10\<close> once (its description is
  \<^verbatim>\<open>10 inch tablet\<close>); item 11, a novel, is document 10. The two differ in category
  and agree in price and rating. The documents are the term counts of the stemmed texts;
  of these only the counts of the tokens \<^verbatim>\<open>10\<close> and \<^verbatim>\<open>0\<close> enter the results.
\<close>

definition tablet :: product where
  "tablet = (mk_product 1 ''electronics'' 100 4)
              \<lparr>product_name := ''tablet'', description := ''10 inch tablet''\<rparr>"

definition novel :: product where
  "novel = (mk_product 11 ''books'' 100 4)\<lparr>product_name := ''novel''\<rparr>"

definition features_tablet :: features where
  "features_tablet = features_of tablet 0"

definition features_novel :: features where
  "features_novel = features_of novel 10"

definition catalog11 :: "product list" where
  "catalog11 = tablet # map (\<lambda>i. mk_product (int i) ''misc'' 10 3) [2..<11] @ [novel]"

definition documents11 :: "document list" where
  "documents11 =
     [(''tablet'', 2), (''10'', 1), (''inch'', 1), (''electron'', 1), (''gener'', 1),
      (''acm'', 1)]
     # replicate 9 [(''item'', 2), (''misc'', 1), (''gener'', 1), (''acm'', 1)]
     @ [[(''novel'', 1), (''item'', 1), (''book'', 1), (''gener'', 1), (''acm'', 1)]]"

definition engine11 :: engine where
  "engine11 =
     \<lparr>tfidf = natural_tfidf documents11,
      productFeatures =
        map_of (map (\<lambda>(i, p). (product_id p, features_of p i)) (enumerate 0 catalog11)),
      userItemMatrix = []\<rparr>"

section \<open>Content similarity\<close>

lemma price_closeness_range:
  assumes "0 \<le> price f1" "0 \<le> price f2"
  shows "0 \<le> price_closeness f1 f2 \<and> price_closeness f1 f2 \<le> 1"
proof (cases "price f1 = 0 \<and> price f2 = 0")
  case True
  then show ?thesis by (simp add: price_closeness_def)
next
  case False
  with assms have m: "0 < max (price f1) (price f2)" by (auto simp: max_def)
  have "\<bar>price f1 - price f2\<bar> \<le> max (price f1) (price f2)"
    using assms by (auto simp: max_def abs_if)
  with m have "\<bar>price f1 - price f2\<bar> / max (price f1) (price f2) \<le> 1" by simp
  moreover have "0 \<le> \<bar>price f1 - price f2\<bar> / max (price f1) (price f2)"
    using m by simp
  ultimately show ?thesis using False by (simp add: price_closeness_def)
qed

lemma rating_closeness_range:
  assumes "valid_attrs f1" "valid_attrs f2"
  shows "0 \<le> rating_closeness f1 f2 \<and> rating_closeness f1 f2 \<le> 1"
  using assms by (auto simp: rating_closeness_def valid_attrs_def abs_if)

text \<open>On prices that are not negative the code's sum, before \<^verbatim>\<open>Math.min\<close>, is the
  weighted sum of the five terms.\<close>

lemma similarity_unfold:
  assumes "productFeatures e a = Some f1" "productFeatures e b = Some f2"
    and "0 \<le> price f1" "0 \<le> price f2"
  shows "calculateProductSimilarity e a b =
         min (weighted_sum (tfidf e (textIndex f1) (textIndex f2)) f1 f2) 1"
proof -
  have p: "(if max (price f1) (price f2) > 0
            then 1 - \<bar>price f1 - price f2\<bar> / max (price f1) (price f2) else 1)
           = price_closeness f1 f2"
    using assms(3,4) by (auto simp: price_closeness_def max_def)
  show ?thesis
    using assms(1,2) unfolding calculateProductSimilarity_def Let_def
    by (simp add: p weighted_sum_def category_term_def subcategory_term_def
        rating_closeness_def mult.commute)
qed

text \<open>Whatever the text measure, \<^verbatim>\<open>Math.min\<close> keeps the result at or below 1.\<close>

lemma similarity_at_most_1: "calculateProductSimilarity e a b \<le> 1"
  by (simp add: calculateProductSimilarity_def Let_def split: option.splits)

lemma engine3_features:
  "productFeatures engine3 1 = Some features1"
  "productFeatures engine3 2 = Some features2"
  "productFeatures engine3 3 = Some features3"
  by (simp_all add: engine3_def)

lemma catalog3_valid: "valid_attrs features1" "valid_attrs features2" "valid_attrs features3"
  by (simp_all add: valid_attrs_def features_of_def features1_def features2_def features3_def
      item1_def item2_def item3_def mk_product_def)

lemma engine3_tfidf: "tfidf engine3 i j = 0"
  by (simp add: engine3_def)

text \<open>
  What the repository's own arithmetic does with the text term: for two indexed items
  whose prices and ratings are in the ranges the schema validates, and a text term that
  lies between 0 and 1, the result is the weighted sum of the five terms and lies in
  [0,1].
\<close>

lemma weighted_sum_for_normalised_text:
  assumes "productFeatures e a = Some f1" "productFeatures e b = Some f2"
    and "valid_attrs f1" "valid_attrs f2"
    and "0 \<le> tfidf e (textIndex f1) (textIndex f2)"
    and "tfidf e (textIndex f1) (textIndex f2) \<le> 1"
  shows "calculateProductSimilarity e a b
           = weighted_sum (tfidf e (textIndex f1) (textIndex f2)) f1 f2
         \<and> category_term f1 f2 \<in> {0, 1} \<and> subcategory_term f1 f2 \<in> {0, 1}
         \<and> 0 \<le> price_closeness f1 f2 \<and> price_closeness f1 f2 \<le> 1
         \<and> 0 \<le> rating_closeness f1 f2 \<and> rating_closeness f1 f2 \<le> 1
         \<and> 0 \<le> calculateProductSimilarity e a b \<and> calculateProductSimilarity e a b \<le> 1"
proof -
  let ?t = "tfidf e (textIndex f1) (textIndex f2)"
  have pr: "0 \<le> price_closeness f1 f2 \<and> price_closeness f1 f2 \<le> 1"
    using assms(3,4) by (simp add: price_closeness_range valid_attrs_def)
  have rr: "0 \<le> rating_closeness f1 f2 \<and> rating_closeness f1 f2 \<le> 1"
    using assms(3,4) by (rule rating_closeness_range)
  have c: "category_term f1 f2 \<in> {0, 1}" by (simp add: category_term_def)
  have s: "subcategory_term f1 f2 \<in> {0, 1}" by (simp add: subcategory_term_def)
  have le: "weighted_sum ?t f1 f2 \<le> 1"
    using pr rr assms(5,6)
    by (auto simp: weighted_sum_def category_term_def subcategory_term_def)
  have ge: "0 \<le> weighted_sum ?t f1 f2"
    using pr rr assms(5,6)
    by (auto simp: weighted_sum_def category_term_def subcategory_term_def)
  have eq: "calculateProductSimilarity e a b = weighted_sum ?t f1 f2"
    using similarity_unfold[OF assms(1,2)] assms(3,4) le by (simp add: valid_attrs_def)
  show ?thesis using eq pr rr c s le ge by simp
qed

text \<open>Every term but the text term is symmetric: the result does not depend on the
  order of two indexed items when the text term does not.\<close>

lemma symmetric_for_symmetric_text:
  assumes "productFeatures e a = Some f1" "productFeatures e b = Some f2"
    and "tfidf e (textIndex f1) (textIndex f2) = tfidf e (textIndex f2) (textIndex f1)"
  shows "calculateProductSimilarity e a b = calculateProductSimilarity e b a"
  using assms unfolding calculateProductSimilarity_def Let_def
  by (simp add: abs_minus_commute max.commute)

subsection \<open>The text term in the code\<close>

lemma decimal_10_0: "decimal 10 = ''10''" "decimal 0 = ''0''"
  by (simp_all add: decimal.simps[of 10] decimal.simps[of "Suc 0"] decimal.simps[of 0])

lemma ln_11_2: "1 < ln (11 / 2 :: real)"
proof -
  have "exp 1 \<le> (3::real)" by (rule exp_le)
  then have "exp (1::real) < 11 / 2" by simp
  then have "ln (exp (1::real)) < ln (11 / 2)" by (subst ln_less_cancel_iff) simp_all
  then show ?thesis by simp
qed

lemma engine11_features:
  "productFeatures engine11 1 = Some features_tablet"
  "productFeatures engine11 11 = Some features_novel"
  by (simp_all add: engine11_def catalog11_def enumerate_append_eq features_tablet_def
      features_novel_def tablet_def novel_def mk_product_def eval_nat_numeral)

lemma features11_index: "textIndex features_tablet = 0" "textIndex features_novel = 10"
  by (simp_all add: features_tablet_def features_novel_def features_of_def)

text \<open>The token \<^verbatim>\<open>10\<close> is once in document 0 and in no other of the eleven documents;
  the token \<^verbatim>\<open>0\<close> is in no document.\<close>

lemma natural_tfidf_10_0: "natural_tfidf documents11 10 0 = 1 + ln (11 / 2)"
  by (simp add: natural_tfidf_def documents11_def decimal_10_0 tf_def idf_def
      documentHasTerm_def)

lemma natural_tfidf_0_10: "natural_tfidf documents11 0 10 = 0"
  by (simp add: natural_tfidf_def documents11_def decimal_10_0 tf_def nth_append)

lemma similarity_11_1: "calculateProductSimilarity engine11 11 1 = 1"
proof -
  have "tfidf engine11 10 0 = 1 + ln (11 / 2)" by (simp add: engine11_def natural_tfidf_10_0)
  then have "calculateProductSimilarity engine11 11 1
             = min (1 / 5 + (2 + ln (11 / 2) * 2) / 5) 1"
    by (simp add: calculateProductSimilarity_def engine11_features features11_index
        features_tablet_def features_novel_def features_of_def tablet_def novel_def
        mk_product_def Let_def)
  also have "\<dots> = 1"
  proof -
    have "1 < x \<Longrightarrow> 1 \<le> 1 / 5 + (2 + x * 2) / 5" for x :: real
      by (simp add: field_simps)
    from this[OF ln_11_2] have "1 \<le> 1 / 5 + (2 + ln (11 / 2 :: real) * 2) / 5" .
    then show ?thesis by (rule min_absorb2)
  qed
  finally show ?thesis .
qed

lemma similarity_1_11: "calculateProductSimilarity engine11 1 11 = 1 / 5"
proof -
  have "tfidf engine11 0 10 = 0" by (simp add: engine11_def natural_tfidf_0_10)
  then show ?thesis
    by (simp add: calculateProductSimilarity_def engine11_features features11_index
        features_tablet_def features_novel_def features_of_def tablet_def novel_def
        mk_product_def Let_def)
qed

text \<open>
  C3 (the code departs from it). The text term of \<^verbatim>\<open>calculateProductSimilarity\<close> is
  \<^verbatim>\<open>this.tfidf.tfidf(features1.textIndex, features2.textIndex)\<close>: the tf-idf weight of
  the token that spells the first index, in the document of the second. It is no cosine
  similarity of two text vectors and is not normalized to [0,1]. For items 11 and 1 of
  the eleven-item index it is 1 + ln (11 / 2), above 1, and the result is the clamp 1;
  the weighted sum of five terms in [0,1] is at most 3/5 for this pair, whose categories
  differ and whose prices and ratings agree.
\<close>

theorem text_term_not_normalised:
  "tfidf engine11 (textIndex features_novel) (textIndex features_tablet) = 1 + ln (11 / 2)
   \<and> 1 < tfidf engine11 (textIndex features_novel) (textIndex features_tablet)
   \<and> calculateProductSimilarity engine11 11 1 = 1
   \<and> weighted_sum 1 features_novel features_tablet = 3 / 5"
  using ln_11_2 similarity_11_1
  by (simp add: engine11_def natural_tfidf_10_0 features11_index weighted_sum_def
      category_term_def subcategory_term_def price_closeness_def rating_closeness_def
      features_tablet_def features_novel_def features_of_def tablet_def novel_def
      mk_product_def)

text \<open>
  C6 (the code departs from it). Because the text term reads its first argument as a
  token and its second as a document, the content similarity depends on the order of
  the two items: items 11 and 1 of the eleven-item index have similarity 1 in one order
  and 1/5 in the other.
\<close>

theorem similarity_not_symmetric:
  "calculateProductSimilarity engine11 11 1 = 1
   \<and> calculateProductSimilarity engine11 1 11 = 1 / 5"
  using similarity_11_1 similarity_1_11 by simp

section \<open>The example states\<close>

lemma world_ab_matrix:
  "userItemMatrix (eng world_ab) = [(''A'', [(1, 10)]), (''B'', [(1, 3), (2, 10)])]"
  by (simp add: world_ab_def buildUserItemMatrix_def query_def user_A_def user_B_def
      user_vector_def get_or_0_def getInteractionWeight_def engine3_def)

lemma world_ab_db:
  "db world_ab = \<lparr>products = catalog3, users = [user_A, user_B], rejects = (\<lambda>c. False)\<rparr>"
  by (simp add: world_ab_def buildUserItemMatrix_def query_def)

section \<open>Recording an interaction\<close>

text \<open>
  C1 (as the code has it). For every call of \<^verbatim>\<open>updateUserInteraction\<close> with a type
  outside the fixed set, the operation returns normally: the error of the rejected save
  is caught and logged inside the operation, nothing is raised to the caller. The state
  afterwards is the state before the call, so the user-item matrix and the stored data
  are unchanged.
\<close>

theorem invalid_type_returns_unchanged:
  assumes "interactionType \<notin> set interaction_types"
  shows "updateUserInteraction w userId productId interactionType given_rating = (Inr (), w)"
  using assms
  by (simp add: updateUserInteraction_def updateUserInteraction_body_def addInteraction_def
      valid_interaction_def query_def Let_def split: option.splits)

theorem invalid_type_returns_unchanged_witness:
  "''rate'' \<notin> set interaction_types
   \<and> updateUserInteraction world_ab ''B'' 2 ''rate'' (Some 4) = (Inr (), world_ab)"
  using invalid_type_returns_unchanged[of "''rate''" world_ab "''B''" 2 "Some 4"]
  by (simp add: interaction_types_def)

text \<open>The claim as stated fails: with the type \<^verbatim>\<open>"wishlist"\<close> the operation raises
  nothing, it returns.\<close>

theorem wishlist_not_raised:
  "''wishlist'' \<notin> set interaction_types
   \<and> fst (updateUserInteraction world_ab ''A'' 1 ''wishlist'' None) = Inr ()"
  by (simp add: updateUserInteraction_def updateUserInteraction_body_def addInteraction_def
      valid_interaction_def query_def Let_def interaction_types_def world_ab_db
      User_findById_def user_A_def user_B_def)

text \<open>A valid type is recorded: A's view of item 2 adds the weight 1 to A's row.\<close>

lemma view_is_recorded:
  "userItemMatrix (eng (snd (updateUserInteraction world_ab ''A'' 2 ''view'' None)))
   = [(''A'', [(1, 10), (2, 1)]), (''B'', [(1, 3), (2, 10)])]"
  by (simp add: updateUserInteraction_def updateUserInteraction_body_def addInteraction_def
      valid_interaction_def query_def Let_def world_ab_db world_ab_matrix User_findById_def
      user_A_def user_B_def interaction_types_def getInteractionWeight_def get_or_0_def
      Product_findOne_def catalog3_def item1_def item2_def item3_def mk_product_def
      save_product_def)

section \<open>Failures are caught\<close>

text \<open>The fallback always returns: the popularity ranking, or the empty list when its
  query is rejected.\<close>

lemma fallback_returns:
  "getFallbackRecommendations w limit =
     Inr (if rejects (db w) ProductFindSorted then []
          else map (\<lambda>p. \<lparr>item = p, similarity_score = rating p / 5,
                          recommendation_type = fallback, combined_score = None\<rparr>)
                 (limit_cursor limit (sort_key popularity_key (products (db w)))))"
  by (simp add: getFallbackRecommendations_def getFallbackRecommendations_body_def
      try_catch_def await_def query_def)

lemma try_catch_fallback:
  "\<exists>recs. try_catch body (\<lambda>error. getFallbackRecommendations w limit) = Inr recs"
  by (cases body) (simp_all add: try_catch_def fallback_returns)

lemma content_returns:
  "\<exists>recs. getContentBasedRecommendations w userId productId limit = Inr recs"
  unfolding getContentBasedRecommendations_def by (rule try_catch_fallback)

lemma collab_returns: "\<exists>recs. getCollaborativeRecommendations w userId limit = Inr recs"
  unfolding getCollaborativeRecommendations_def by (rule try_catch_fallback)

lemma hybrid_body_returns: "\<exists>recs. getHybridRecommendations_body w userId limit = Inr recs"
proof -
  obtain c where c: "getContentBasedRecommendations w userId None (sub_limit limit) = Inr c"
    using content_returns by blast
  obtain k where k: "getCollaborativeRecommendations w userId (sub_limit limit) = Inr k"
    using collab_returns by blast
  show ?thesis
    by (simp add: getHybridRecommendations_body_def c k await_def Let_def)
qed

lemma sqrt_100_9: "sqrt 100 = 10" "sqrt 9 = 3"
  using real_sqrt_abs[of 10] real_sqrt_abs[of 3] by simp_all

lemma calculateUserSimilarity_A_B: "calculateUserSimilarity [(1, 10)] [(1, 3), (2, 10)] = 1"
  by (simp add: calculateUserSimilarity_def has_def get_or_0_def sqrt_100_9)

lemma findSimilarUsers_A:
  assumes "userItemMatrix e = [(''A'', [(1, 10)]), (''B'', [(1, 3), (2, 10)])]"
  shows "findSimilarUsers e ''A'' 10 = [(''B'', 1)]"
  by (simp add: findSimilarUsers_def assms calculateUserSimilarity_A_B sort_desc_def)

lemma collect_recommendations_A:
  assumes "userItemMatrix e = [(''A'', [(1, 10)]), (''B'', [(1, 3), (2, 10)])]"
  shows "collect_recommendations e [(1, 10)] [(''B'', 1)] = [(2, 10)]"
  by (simp add: collect_recommendations_def add_neighbour_items_def assms has_def get_or_0_def)

lemma world_down_content_body:
  "getContentBasedRecommendations_body world_down ''A'' (Some 1) 5 = Inl DbError"
  by (simp add: getContentBasedRecommendations_body_def world_down_def await_def query_def)

lemma world_down_fallback: "getFallbackRecommendations world_down 5 = Inr []"
  by (simp add: fallback_returns world_down_def)

lemma world_missing_matrix:
  "userItemMatrix (eng world_missing) = [(''A'', [(1, 10)]), (''B'', [(1, 3), (2, 10)])]"
  by (simp add: world_missing_def world_ab_matrix)

lemma world_missing_db:
  "db world_missing
   = \<lparr>products = [item1, item3], users = [user_A, user_B], rejects = (\<lambda>c. False)\<rparr>"
  by (simp add: world_missing_def world_ab_db)

text \<open>Item 2 is recommended to A but is not in the catalog: \<^verbatim>\<open>product.toObject()\<close>
  throws inside the \<^verbatim>\<open>try\<close> block.\<close>

lemma world_missing_collab_body:
  "getCollaborativeRecommendations_body world_missing ''A'' 5 = Inl TypeError"
  by (simp add: getCollaborativeRecommendations_body_def world_missing_matrix
      findSimilarUsers_A collect_recommendations_A Let_def sort_desc_def await_def query_def
      world_missing_db item1_def item3_def mk_product_def)

lemma world_missing_fallback:
  "getFallbackRecommendations world_missing 5 =
   Inr [\<lparr>item = item1, similarity_score = 4 / 5, recommendation_type = fallback,
         combined_score = None\<rparr>,
        \<lparr>item = item3, similarity_score = 3 / 5, recommendation_type = fallback,
         combined_score = None\<rparr>]"
  by (simp add: fallback_returns world_missing_db limit_cursor_def popularity_key_def
      item1_def item3_def mk_product_def)

text \<open>
  C10. For every input each public operation returns (\<open>Inr\<close>), none ends in a thrown
  error. When the \<^verbatim>\<open>try\<close> block of the content-based or of the collaborative operation
  throws, the operation returns what the fallback returns, and the fallback returns the
  popularity ranking, or the empty list when its own query is rejected. The \<^verbatim>\<open>try\<close>
  block of the hybrid operation never throws, since the two operations it awaits have
  caught their own failures. \<^verbatim>\<open>updateUserInteraction\<close> returns with no result.
\<close>

theorem operations_never_throw:
  "(\<exists>recs. getContentBasedRecommendations w userId productId limit = Inr recs)
   \<and> (\<exists>recs. getCollaborativeRecommendations w userId limit = Inr recs)
   \<and> (\<exists>recs. getHybridRecommendations w userId limit = Inr recs)
   \<and> fst (updateUserInteraction w userId pid interactionType given_rating) = Inr ()
   \<and> (isl (getContentBasedRecommendations_body w userId productId limit) \<longrightarrow>
        getContentBasedRecommendations w userId productId limit
        = getFallbackRecommendations w limit)
   \<and> (isl (getCollaborativeRecommendations_body w userId limit) \<longrightarrow>
        getCollaborativeRecommendations w userId limit = getFallbackRecommendations w limit)
   \<and> \<not> isl (getHybridRecommendations_body w userId limit)
   \<and> getFallbackRecommendations w limit =
       Inr (if rejects (db w) ProductFindSorted then []
            else map (\<lambda>p. \<lparr>item = p, similarity_score = rating p / 5,
                            recommendation_type = fallback, combined_score = None\<rparr>)
                   (limit_cursor limit (sort_key popularity_key (products (db w)))))"
proof -
  have hybrid: "\<exists>recs. getHybridRecommendations w userId limit = Inr recs"
    unfolding getHybridRecommendations_def by (rule try_catch_fallback)
  have update: "fst (updateUserInteraction w userId pid interactionType given_rating) = Inr ()"
    by (simp add: updateUserInteraction_def split: prod.splits sum.splits)
  have content: "isl (getContentBasedRecommendations_body w userId productId limit) \<longrightarrow>
        getContentBasedRecommendations w userId productId limit
        = getFallbackRecommendations w limit"
    by (auto simp: getContentBasedRecommendations_def try_catch_def isl_def)
  have collab: "isl (getCollaborativeRecommendations_body w userId limit) \<longrightarrow>
        getCollaborativeRecommendations w userId limit = getFallbackRecommendations w limit"
    by (auto simp: getCollaborativeRecommendations_def try_catch_def isl_def)
  have body: "\<not> isl (getHybridRecommendations_body w userId limit)"
    using hybrid_body_returns[of w userId limit] by auto
  show ?thesis
    using content_returns collab_returns hybrid update content collab body fallback_returns
    by blast
qed

theorem operations_never_throw_witness:
  "isl (getContentBasedRecommendations_body world_down ''A'' (Some 1) 5)
   \<and> getContentBasedRecommendations world_down ''A'' (Some 1) 5 = Inr []
   \<and> isl (getCollaborativeRecommendations_body world_missing ''A'' 5)
   \<and> getCollaborativeRecommendations world_missing ''A'' 5 =
       Inr [\<lparr>item = item1, similarity_score = 4 / 5, recommendation_type = fallback,
             combined_score = None\<rparr>,
            \<lparr>item = item3, similarity_score = 3 / 5, recommendation_type = fallback,
             combined_score = None\<rparr>]"
  using operations_never_throw[where w = world_down and userId = "''A''"
          and productId = "Some 1" and limit = 5]
        operations_never_throw[where w = world_missing and userId = "''A''" and limit = 5]
  by (simp add: world_down_content_body world_down_fallback world_missing_collab_body
      world_missing_fallback)

section \<open>Content-based recommendations\<close>

lemma Product_findOne_id: "Product_findOne d pid = Some p \<Longrightarrow> product_id p = pid"
  by (auto simp: Product_findOne_def find_Some_iff)

lemma rank_similar_to_unindexed:
  assumes "productFeatures (eng w) pid = None"
  shows "rank_similar_to w (Product_findOne (db w) pid) limit
         = getFallbackRecommendations w limit"
proof (cases "Product_findOne (db w) pid")
  case None
  then show ?thesis by (simp add: rank_similar_to_def)
next
  case (Some p)
  then have "product_id p = pid" by (rule Product_findOne_id)
  with Some assms show ?thesis by (simp add: rank_similar_to_def)
qed

text \<open>
  C5 (as the code has it). For every anchor item id other than 0 that is absent from the
  content index, \<^verbatim>\<open>getContentBasedRecommendations\<close> called with that id raises nothing:
  it returns the list of the popularity fallback for the same limit.
\<close>

theorem unknown_anchor_falls_back:
  assumes "pid \<noteq> 0" and "productFeatures (eng w) pid = None"
  shows "getContentBasedRecommendations w userId (Some pid) limit
         = getFallbackRecommendations w limit"
proof (cases "rejects (db w) ProductFindOne")
  case True
  with assms(1) show ?thesis
    by (simp add: getContentBasedRecommendations_def getContentBasedRecommendations_body_def
        await_def query_def try_catch_def)
next
  case False
  with assms(1) have "getContentBasedRecommendations_body w userId (Some pid) limit
        = getFallbackRecommendations w limit"
    by (simp add: getContentBasedRecommendations_body_def await_def query_def
        rank_similar_to_unindexed[OF assms(2)])
  then show ?thesis
    by (simp add: getContentBasedRecommendations_def try_catch_def fallback_returns)
qed

lemma world_ab_unindexed: "productFeatures (eng world_ab) 99 = None"
  "productFeatures (eng world_ab) 42 = None"
  by (simp_all add: world_ab_def buildUserItemMatrix_def query_def engine3_def)

lemma world_ab_fallback_2:
  "getFallbackRecommendations world_ab 2 =
   Inr [\<lparr>item = item2, similarity_score = 21 / 25, recommendation_type = fallback,
         combined_score = None\<rparr>,
        \<lparr>item = item1, similarity_score = 4 / 5, recommendation_type = fallback,
         combined_score = None\<rparr>]"
  by (simp add: fallback_returns world_ab_db limit_cursor_def popularity_key_def catalog3_def
      item1_def item2_def item3_def mk_product_def)

theorem unknown_anchor_falls_back_witness:
  "(42::int) \<noteq> 0 \<and> productFeatures (eng world_ab) 42 = None
   \<and> getContentBasedRecommendations world_ab ''B'' (Some 42) 2
       = getFallbackRecommendations world_ab 2"
  using unknown_anchor_falls_back[of 42 world_ab "''B''" 2]
  by (simp add: world_ab_unindexed)

text \<open>The claim as stated fails: item 99 is not indexed, and the operation returns a
  list, the two best-rated items.\<close>

theorem unknown_anchor_returns_list:
  "productFeatures (eng world_ab) 99 = None
   \<and> getContentBasedRecommendations world_ab ''A'' (Some 99) 2 =
       Inr [\<lparr>item = item2, similarity_score = 21 / 25, recommendation_type = fallback,
             combined_score = None\<rparr>,
            \<lparr>item = item1, similarity_score = 4 / 5, recommendation_type = fallback,
             combined_score = None\<rparr>]"
  by (simp add: world_ab_unindexed getContentBasedRecommendations_def
      getContentBasedRecommendations_body_def await_def query_def try_catch_def world_ab_db
      Product_findOne_def catalog3_def item1_def item2_def item3_def mk_product_def
      rank_similar_to_def fallback_returns limit_cursor_def popularity_key_def)

section \<open>Collaborative recommendations\<close>

lemma find_filter_same: "find P (filter (\<lambda>x. P x \<or> Q x) xs) = find P xs"
  by (induction xs) auto

lemma collab_for_A:
  assumes m: "userItemMatrix (eng w) = [(''A'', [(1, 10)]), (''B'', [(1, 3), (2, 10)])]"
    and q: "\<not> rejects (db w) ProductFindIn"
    and p: "Product_findOne (db w) 2 = Some p2"
    and l: "0 < limit"
  shows "getCollaborativeRecommendations w ''A'' limit
             = Inr [\<lparr>item = p2, similarity_score = 10, recommendation_type = collaborative,
                     combined_score = None\<rparr>]"
proof -
  have t: "take limit [(2::int, 10::real)] = [(2, 10)]"
    using l by (cases limit) simp_all
  have f: "find (\<lambda>p. product_id p = 2) (filter (\<lambda>p. product_id p = 2) (products (db w)))
           = Some p2"
    using p find_filter_same[of "\<lambda>p. product_id p = 2" "\<lambda>p. False" "products (db w)"]
    by (simp add: Product_findOne_def)
  have id: "product_id p2 = 2"
    using p by (rule Product_findOne_id)
  have body: "getCollaborativeRecommendations_body w ''A'' limit
             = Inr [\<lparr>item = p2, similarity_score = 10, recommendation_type = collaborative,
                     combined_score = None\<rparr>]"
    using q
    by (simp add: getCollaborativeRecommendations_body_def m findSimilarUsers_A[OF m]
        collect_recommendations_A[OF m] Let_def sort_desc_def t await_def query_def f id)
  show ?thesis
    by (simp add: getCollaborativeRecommendations_def body try_catch_def)
qed

lemma world_ab_item2: "Product_findOne (db world_ab) 2 = Some item2"
  by (simp add: world_ab_db Product_findOne_def catalog3_def item1_def item2_def mk_product_def)

lemma world_ab_collab_A:
  "getCollaborativeRecommendations world_ab ''A'' 10
       = Inr [\<lparr>item = item2, similarity_score = 10, recommendation_type = collaborative,
               combined_score = None\<rparr>]"
  by (rule collab_for_A[OF world_ab_matrix _ world_ab_item2]) (simp_all add: world_ab_db)

text \<open>
  C7. In a state whose matrix holds A's vector {item1: 10} and B's vector
  {item1: 3, item2: 10}, with item 2 in the catalog and the product query answered: the
  similarity of A and B is exactly 1, \<^verbatim>\<open>findSimilarUsers\<close> for A returns B with
  similarity 1, and the collaborative recommendation for A (any positive limit) is item 2
  with score exactly 10.
\<close>

theorem scenario_A_B:
  assumes m: "userItemMatrix (eng w) = [(''A'', [(1, 10)]), (''B'', [(1, 3), (2, 10)])]"
    and q: "\<not> rejects (db w) ProductFindIn"
    and p: "Product_findOne (db w) 2 = Some p2"
    and l: "0 < limit"
  shows "calculateUserSimilarity [(1, 10)] [(1, 3), (2, 10)] = 1
         \<and> findSimilarUsers (eng w) ''A'' 10 = [(''B'', 1)]
         \<and> getCollaborativeRecommendations w ''A'' limit
             = Inr [\<lparr>item = p2, similarity_score = 10, recommendation_type = collaborative,
                     combined_score = None\<rparr>]"
  using collab_for_A[OF m q p l] findSimilarUsers_A[OF m] calculateUserSimilarity_A_B
  by simp

text \<open>The state built from the stored events (A: one purchase of item 1; B: one like of
  item 1 and one purchase of item 2) is such a state.\<close>

theorem scenario_A_B_witness:
  "userItemMatrix (eng world_ab) = [(''A'', [(1, 10)]), (''B'', [(1, 3), (2, 10)])]
   \<and> findSimilarUsers (eng world_ab) ''A'' 10 = [(''B'', 1)]
   \<and> getCollaborativeRecommendations world_ab ''A'' 10
       = Inr [\<lparr>item = item2, similarity_score = 10, recommendation_type = collaborative,
               combined_score = None\<rparr>]"
  using scenario_A_B[OF world_ab_matrix _ world_ab_item2, of 10]
  by (simp add: world_ab_matrix world_ab_db)

lemma fallback_tagged:
  assumes "getFallbackRecommendations w limit = Inr recs" "r \<in> set recs"
  shows "recommendation_type r = fallback"
  using assms by (auto simp: fallback_returns split: if_splits)

lemma add_neighbour_items_keys:
  "fst ` set (add_neighbour_items ui s nb recs) \<subseteq> fst ` set recs \<union> {p. \<not> has ui p}"
  unfolding add_neighbour_items_def
proof (induction nb arbitrary: recs)
  case Nil
  then show ?case by simp
next
  case (Cons x nb)
  obtain p wt where x: "x = (p, wt)" by (cases x)
  show ?case
  proof (cases "has ui p")
    case True
    with Cons.IH[of recs] x show ?thesis by simp
  next
    case False
    let ?recs = "AList.update p (get_or_0 recs p + wt * s) recs"
    have "fst ` set ?recs \<subseteq> fst ` set recs \<union> {p. \<not> has ui p}"
      using False by (auto simp: dom_update)
    with Cons.IH[of ?recs] x False show ?thesis by (auto simp: Let_def)
  qed
qed

lemma collect_recommendations_keys_aux:
  "fst ` set (fold (\<lambda>(similarUserId, similarity) recommendations.
             case map_of (userItemMatrix e) similarUserId of
               None \<Rightarrow> recommendations
             | Some similarUserInteractions \<Rightarrow>
                 add_neighbour_items ui similarity similarUserInteractions recommendations)
       sus recs) \<subseteq> fst ` set recs \<union> {p. \<not> has ui p}"
proof (induction sus arbitrary: recs)
  case Nil
  then show ?case by simp
next
  case (Cons x sus)
  obtain u s where x: "x = (u, s)" by (cases x)
  show ?case
  proof (cases "map_of (userItemMatrix e) u")
    case None
    with Cons.IH[of recs] x show ?thesis by simp
  next
    case (Some nb)
    from Cons.IH[of "add_neighbour_items ui s nb recs"] add_neighbour_items_keys[of ui s nb recs]
    show ?thesis using x Some by auto
  qed
qed

lemma collect_recommendations_keys:
  "p \<in> fst ` set (collect_recommendations e ui sus) \<Longrightarrow> \<not> has ui p"
  using collect_recommendations_keys_aux[where e = e and ui = ui and sus = sus and recs = "[]"]
  by (auto simp: collect_recommendations_def)

lemma map_throw_Inr:
  "map_throw f xs = Inr ys \<Longrightarrow> y \<in> set ys \<Longrightarrow> \<exists>x \<in> set xs. f x = Inr y"
  by (induction xs arbitrary: ys) (auto split: sum.splits)

lemma has_get_or_0: "\<not> has m k \<Longrightarrow> get_or_0 m k = 0"
  by (force simp: has_def get_or_0_def split: option.splits dest: map_of_SomeD)

text \<open>
  C8 (as the code has it). Every record that \<^verbatim>\<open>getCollaborativeRecommendations(u)\<close>
  returns with the tag \<^verbatim>\<open>collaborative\<close> is for an item that has no entry in the row
  of u in the user-item matrix (so u's accumulated weight for it is 0). The records of
  the popularity fallback, which the operation returns when u has no neighbour above the
  threshold or when its \<^verbatim>\<open>try\<close> block throws, carry the tag \<^verbatim>\<open>fallback\<close> and are
  not filtered.
\<close>

theorem collaborative_excludes_known:
  assumes res: "getCollaborativeRecommendations w userId limit = Inr recs"
    and r: "r \<in> set recs" and tag: "recommendation_type r = collaborative"
  shows "\<exists>userInteractions. map_of (userItemMatrix (eng w)) userId = Some userInteractions
           \<and> \<not> has userInteractions (product_id (item r))
           \<and> get_or_0 userInteractions (product_id (item r)) = 0"
proof -
  have nofb: "getFallbackRecommendations w limit \<noteq> Inr recs"
    using fallback_tagged[of w limit recs r] r tag by auto
  have body: "getCollaborativeRecommendations_body w userId limit = Inr recs"
    using res nofb
    by (cases "getCollaborativeRecommendations_body w userId limit")
       (simp_all add: getCollaborativeRecommendations_def try_catch_def)
  from body nofb obtain ui where ui: "map_of (userItemMatrix (eng w)) userId = Some ui"
    by (cases "map_of (userItemMatrix (eng w)) userId")
       (simp_all add: getCollaborativeRecommendations_body_def)
  let ?sus = "findSimilarUsers (eng w) userId 10"
  let ?sorted = "take limit (sort_desc snd (collect_recommendations (eng w) ui ?sus))"
  let ?ps = "filter (\<lambda>p. product_id p \<in> set (map fst ?sorted)) (products (db w))"
  let ?f = "\<lambda>(productId, score).
               case find (\<lambda>p. product_id p = productId) ?ps of
                 None \<Rightarrow> Inl TypeError
               | Some product \<Rightarrow>
                   Inr \<lparr>item = product, similarity_score = score,
                        recommendation_type = collaborative, combined_score = None\<rparr>"
  from body nofb ui obtain items where items: "map_throw ?f ?sorted = Inr items"
    and recs: "recs = filter (\<lambda>r. product_id (item r) \<noteq> 0) items"
    by (auto simp: getCollaborativeRecommendations_body_def Let_def await_def query_def
        split: if_splits sum.splits)
  from r recs have "r \<in> set items" by simp
  with items obtain x where x: "x \<in> set ?sorted" and fx: "?f x = Inr r"
    using map_throw_Inr[of ?f ?sorted items r] by blast
  obtain pid sc where xp: "x = (pid, sc)" by (cases x)
  from fx xp obtain p where fp: "find (\<lambda>p. product_id p = pid) ?ps = Some p" and rp: "item r = p"
    by (auto split: option.splits)
  from fp have "product_id p = pid" by (auto simp: find_Some_iff)
  moreover from x xp have "pid \<in> fst ` set (collect_recommendations (eng w) ui ?sus)"
    by (force simp: sort_desc_def dest: in_set_takeD)
  ultimately have "\<not> has ui (product_id (item r))"
    using rp collect_recommendations_keys by blast
  with ui show ?thesis by (simp add: has_get_or_0)
qed


lemma world_solo_matrix: "userItemMatrix (eng world_solo) = [(''A'', [(1, 10)])]"
  by (simp add: world_solo_def buildUserItemMatrix_def query_def user_A_def
      user_vector_def get_or_0_def getInteractionWeight_def engine3_def)

lemma world_solo_db:
  "db world_solo = \<lparr>products = catalog3, users = [user_A], rejects = (\<lambda>c. False)\<rparr>"
  by (simp add: world_solo_def buildUserItemMatrix_def query_def)

lemma world_solo_fallback:
  "getFallbackRecommendations world_solo 10 =
   Inr [\<lparr>item = item2, similarity_score = 21 / 25, recommendation_type = fallback,
         combined_score = None\<rparr>,
        \<lparr>item = item1, similarity_score = 4 / 5, recommendation_type = fallback,
         combined_score = None\<rparr>,
        \<lparr>item = item3, similarity_score = 3 / 5, recommendation_type = fallback,
         combined_score = None\<rparr>]"
  by (simp add: fallback_returns world_solo_db limit_cursor_def popularity_key_def catalog3_def
      item1_def item2_def item3_def mk_product_def)

theorem collaborative_excludes_known_witness:
  "getCollaborativeRecommendations world_ab ''A'' 10
       = Inr [\<lparr>item = item2, similarity_score = 10, recommendation_type = collaborative,
               combined_score = None\<rparr>]
   \<and> (\<exists>userInteractions. map_of (userItemMatrix (eng world_ab)) ''A'' = Some userInteractions
           \<and> \<not> has userInteractions (product_id item2)
           \<and> get_or_0 userInteractions (product_id item2) = 0)"
  using collaborative_excludes_known[of world_ab "''A''" 10
      "[\<lparr>item = item2, similarity_score = 10, recommendation_type = collaborative,
               combined_score = None\<rparr>]"
      "\<lparr>item = item2, similarity_score = 10, recommendation_type = collaborative,
               combined_score = None\<rparr>"] world_ab_collab_A
  by simp

text \<open>The claim as stated fails: A, alone in the matrix, has bought item 1 and has no
  neighbour; the operation returns the fallback list, which holds item 1.\<close>

theorem collaborative_returns_known_item:
  "map_of (userItemMatrix (eng world_solo)) ''A'' = Some [(1, 10)]
   \<and> product_id item1 = 1
   \<and> getCollaborativeRecommendations world_solo ''A'' 10 =
   Inr [\<lparr>item = item2, similarity_score = 21 / 25, recommendation_type = fallback,
         combined_score = None\<rparr>,
        \<lparr>item = item1, similarity_score = 4 / 5, recommendation_type = fallback,
         combined_score = None\<rparr>,
        \<lparr>item = item3, similarity_score = 3 / 5, recommendation_type = fallback,
         combined_score = None\<rparr>]"
  by (simp add: world_solo_matrix getCollaborativeRecommendations_def
      getCollaborativeRecommendations_body_def findSimilarUsers_def sort_desc_def
      world_solo_fallback try_catch_def item1_def mk_product_def)

section \<open>Rankings are sorted and truncated\<close>

lemma sort_desc_sorted: "sorted_wrt (\<lambda>a b. f a \<ge> f b) (sort_desc f xs)"
proof -
  have "sorted (map (\<lambda>x. - f x) (sort_key (\<lambda>x. - f x) xs))" by (rule sorted_sort_key)
  then show ?thesis by (simp add: sort_desc_def sorted_map)
qed

lemma sorted_wrt_take: "sorted_wrt P xs \<Longrightarrow> sorted_wrt P (take n xs)"
  by (induction xs arbitrary: n) (auto simp: take_Cons split: nat.splits dest: in_set_takeD)

lemma popularity_sorted:
  "sorted_wrt (\<lambda>a b. rating a \<ge> rating b) (sort_key popularity_key ps)"
proof -
  have "sorted (map popularity_key (sort_key popularity_key ps))" by (rule sorted_sort_key)
  then have "sorted_wrt (\<lambda>a b. popularity_key a \<le> popularity_key b) (sort_key popularity_key ps)"
    by (simp add: sorted_map)
  then show ?thesis
    by (rule sorted_wrt_mono_rel[rotated]) (auto simp: popularity_key_def)
qed

lemma fallback_ranked:
  assumes "getFallbackRecommendations w limit = Inr recs"
  shows "ranked_within limit recs"
proof (cases "rejects (db w) ProductFindSorted")
  case True
  with assms show ?thesis
    by (auto simp: fallback_returns ranked_within_def sorted_by_score_desc_def)
next
  case False
  let ?ps = "limit_cursor limit (sort_key popularity_key (products (db w)))"
  have s: "sorted_wrt (\<lambda>a b. rating a \<ge> rating b) ?ps"
    using popularity_sorted[of "products (db w)"]
    by (simp add: limit_cursor_def sorted_wrt_take)
  have l: "0 < limit \<longrightarrow> length ?ps \<le> limit"
    by (simp add: limit_cursor_def)
  from assms False have "recs = map (\<lambda>p. \<lparr>item = p, similarity_score = rating p / 5,
                          recommendation_type = fallback, combined_score = None\<rparr>) ?ps"
    by (simp add: fallback_returns)
  with s l show ?thesis
    by (simp add: ranked_within_def sorted_by_score_desc_def sorted_wrt_map)
qed

lemma rank_similar_to_ranked:
  assumes "rank_similar_to w t limit = Inr recs"
  shows "ranked_within limit recs"
proof (cases t)
  case None
  with assms show ?thesis by (simp add: rank_similar_to_def fallback_ranked)
next
  case (Some target)
  show ?thesis
  proof (cases "productFeatures (eng w) (product_id target)")
    case None
    with assms Some show ?thesis by (simp add: rank_similar_to_def fallback_ranked)
  next
    case (Some tf)
    let ?all = "filter (\<lambda>p. product_id p \<noteq> product_id target) (products (db w))"
    let ?top = "take limit (sort_desc snd (similarities_loop (eng w) (product_id target) ?all))"
    have s: "sorted_wrt (\<lambda>a b. snd a \<ge> snd b) ?top"
      by (rule sorted_wrt_take) (rule sort_desc_sorted)
    from assms \<open>t = Some target\<close> Some
    have "recs = map (\<lambda>(product, similarity).
                              \<lparr>item = product, similarity_score = similarity,
                               recommendation_type = content_based, combined_score = None\<rparr>) ?top"
      by (auto simp: rank_similar_to_def await_def query_def Let_def split: if_splits)
    with s show ?thesis
      by (simp add: ranked_within_def sorted_by_score_desc_def sorted_wrt_map case_prod_beta)
  qed
qed

lemma content_body_ranked:
  assumes "getContentBasedRecommendations_body w userId productId limit = Inr recs"
  shows "ranked_within limit recs"
  using assms
  by (auto simp: getContentBasedRecommendations_body_def await_def query_def Let_def
      fallback_ranked rank_similar_to_ranked
      split: option.splits if_splits list.splits sum.splits)

lemma content_ranked:
  assumes "getContentBasedRecommendations w userId productId limit = Inr recs"
  shows "ranked_within limit recs"
  using assms
  by (auto simp: getContentBasedRecommendations_def try_catch_def fallback_ranked
      content_body_ranked split: sum.splits)


lemma map_throw_map:
  assumes "map_throw f xs = Inr ys" and "\<And>x y. f x = Inr y \<Longrightarrow> h y = k x"
  shows "map h ys = map k xs"
  using assms by (induction xs arbitrary: ys) (auto split: sum.splits)

lemma sorted_wrt_map_eq:
  assumes "map h ys = map k xs" and "sorted_wrt (\<lambda>a b. k a \<ge> (k b :: real)) xs"
  shows "sorted_wrt (\<lambda>a b. h a \<ge> h b) ys"
proof -
  from assms(2) have "sorted_wrt (\<ge>) (map k xs)" by (simp add: sorted_wrt_map)
  with assms(1) have "sorted_wrt (\<ge>) (map h ys)" by simp
  then show ?thesis by (simp add: sorted_wrt_map)
qed

lemma collab_body_ranked:
  assumes "getCollaborativeRecommendations_body w userId limit = Inr recs"
  shows "ranked_within limit recs"
proof (cases "getFallbackRecommendations w limit = Inr recs")
  case True
  then show ?thesis by (rule fallback_ranked)
next
  case nofb: False
  from assms nofb obtain ui where ui: "map_of (userItemMatrix (eng w)) userId = Some ui"
    by (cases "map_of (userItemMatrix (eng w)) userId")
       (simp_all add: getCollaborativeRecommendations_body_def)
  let ?sus = "findSimilarUsers (eng w) userId 10"
  let ?sorted = "take limit (sort_desc snd (collect_recommendations (eng w) ui ?sus))"
  let ?ps = "filter (\<lambda>p. product_id p \<in> set (map fst ?sorted)) (products (db w))"
  let ?f = "\<lambda>(productId, score).
               case find (\<lambda>p. product_id p = productId) ?ps of
                 None \<Rightarrow> Inl TypeError
               | Some product \<Rightarrow>
                   Inr \<lparr>item = product, similarity_score = score,
                        recommendation_type = collaborative, combined_score = None\<rparr>"
  from assms nofb ui obtain items where items: "map_throw ?f ?sorted = Inr items"
    and recs: "recs = filter (\<lambda>r. product_id (item r) \<noteq> 0) items"
    by (auto simp: getCollaborativeRecommendations_body_def Let_def await_def query_def
        split: if_splits sum.splits)
  have m: "map similarity_score items = map snd ?sorted"
    by (rule map_throw_map[OF items]) (auto split: option.splits)
  have s: "sorted_wrt (\<lambda>a b. snd a \<ge> snd b) ?sorted"
    by (rule sorted_wrt_take) (rule sort_desc_sorted)
  have "sorted_wrt (\<lambda>a b. similarity_score a \<ge> similarity_score b) items"
    by (rule sorted_wrt_map_eq[OF m s])
  then have a: "sorted_by_score_desc recs"
    by (simp add: recs sorted_by_score_desc_def sorted_wrt_filter)
  have "length items = length ?sorted"
    using m by (metis length_map)
  then have "length items \<le> limit" by simp
  then have b: "length recs \<le> limit"
    unfolding recs by (rule order_trans[OF length_filter_le])
  from a b show ?thesis by (simp add: ranked_within_def)
qed

lemma collab_ranked:
  assumes "getCollaborativeRecommendations w userId limit = Inr recs"
  shows "ranked_within limit recs"
  using assms
  by (auto simp: getCollaborativeRecommendations_def try_catch_def fallback_ranked
      collab_body_ranked split: sum.splits)

lemma tie_content:
  "getContentBasedRecommendations world_tie ''A'' (Some 1) 10 =
     Inr [\<lparr>item = item3, similarity_score = 19 / 200, recommendation_type = content_based,
           combined_score = None\<rparr>,
          \<lparr>item = item2_books, similarity_score = 19 / 200, recommendation_type = content_based,
           combined_score = None\<rparr>]"
  by (simp add: getContentBasedRecommendations_def getContentBasedRecommendations_body_def
      await_def query_def try_catch_def world_tie_def Product_findOne_def rank_similar_to_def
      calculateProductSimilarity_def features_of_def sort_desc_def Let_def
      item1_def item3_def item2_books_def mk_product_def)

text \<open>
  C9 (as the code has it). Every list that \<^verbatim>\<open>getContentBasedRecommendations\<close> or
  \<^verbatim>\<open>getCollaborativeRecommendations\<close> returns is in descending order of score and,
  for a positive limit, holds at most \<open>limit\<close> records. The comparison is on the score
  alone: no order by item id is applied among equal scores.
\<close>

theorem rankings_sorted_and_truncated:
  assumes "getContentBasedRecommendations w userId productId limit = Inr recs
           \<or> getCollaborativeRecommendations w userId limit = Inr recs"
  shows "sorted_by_score_desc recs \<and> (0 < limit \<longrightarrow> length recs \<le> limit)"
  using assms content_ranked collab_ranked unfolding ranked_within_def by blast

theorem rankings_sorted_and_truncated_witness:
  "getContentBasedRecommendations world_tie ''A'' (Some 1) 10 =
     Inr [\<lparr>item = item3, similarity_score = 19 / 200, recommendation_type = content_based,
           combined_score = None\<rparr>,
          \<lparr>item = item2_books, similarity_score = 19 / 200,
           recommendation_type = content_based, combined_score = None\<rparr>]
   \<and> sorted_by_score_desc
         [\<lparr>item = item3, similarity_score = 19 / 200, recommendation_type = content_based,
           combined_score = None\<rparr>,
          \<lparr>item = item2_books, similarity_score = 19 / 200,
           recommendation_type = content_based, combined_score = None\<rparr>]
   \<and> 0 < (10::nat)
   \<and> length
         [\<lparr>item = item3, similarity_score = 19 / 200, recommendation_type = content_based,
           combined_score = None\<rparr>,
          \<lparr>item = item2_books, similarity_score = 19 / 200,
           recommendation_type = content_based, combined_score = None\<rparr>] \<le> 10"
  using rankings_sorted_and_truncated[where w = world_tie and userId = "''A''"
          and productId = "Some 1" and limit = 10, OF disjI1, OF tie_content] tie_content
  by simp

text \<open>The claim as stated fails: items 3 and 2 have the same score and come out in the
  order of the catalog, item 3 before item 2.\<close>

theorem tie_not_broken_by_id:
  "getContentBasedRecommendations world_tie ''A'' (Some 1) 10 =
     Inr [\<lparr>item = item3, similarity_score = 19 / 200, recommendation_type = content_based,
           combined_score = None\<rparr>,
          \<lparr>item = item2_books, similarity_score = 19 / 200,
           recommendation_type = content_based, combined_score = None\<rparr>]
   \<and> \<not> ranked_by_score_then_id
         [\<lparr>item = item3, similarity_score = 19 / 200, recommendation_type = content_based,
           combined_score = None\<rparr>,
          \<lparr>item = item2_books, similarity_score = 19 / 200,
           recommendation_type = content_based, combined_score = None\<rparr>]"
  by (simp add: tie_content ranked_by_score_then_id_def item3_def item2_books_def
      mk_product_def)

section \<open>The hybrid blend\<close>

lemma add_content_recs_notin:
  "p \<notin> (\<lambda>r. product_id (item r)) ` set cs \<Longrightarrow> map_of (add_content_recs cs m) p = map_of m p"
  unfolding add_content_recs_def
  by (induction cs arbitrary: m) (auto simp: update_conv')

lemma add_content_recs_in:
  "distinct (map (\<lambda>r. product_id (item r)) cs) \<Longrightarrow> c \<in> set cs \<Longrightarrow>
   map_of (add_content_recs cs m) (product_id (item c)) =
     Some (c\<lparr>combined_score := Some (similarity_score c * 0.6), recommendation_type := hybrid\<rparr>)"
proof (induction cs arbitrary: m)
  case Nil
  then show ?case by simp
next
  case (Cons x cs)
  show ?case
  proof (cases "c = x")
    case True
    from Cons.prems(1) have "product_id (item x) \<notin> (\<lambda>r. product_id (item r)) ` set cs" by auto
    then have "map_of (add_content_recs cs
          (AList.update (product_id (item x)) (x\<lparr>combined_score := Some (similarity_score x * 0.6),
                    recommendation_type := hybrid\<rparr>) m)) (product_id (item x))
        = map_of (AList.update (product_id (item x)) (x\<lparr>combined_score := Some (similarity_score x * 0.6),
                    recommendation_type := hybrid\<rparr>) m) (product_id (item x))"
      by (rule add_content_recs_notin)
    with True show ?thesis by (simp add: add_content_recs_def update_conv')
  next
    case False
    with Cons.prems have "c \<in> set cs" "distinct (map (\<lambda>r. product_id (item r)) cs)" by auto
    from Cons.IH[OF this(2) this(1)] show ?thesis by (simp add: add_content_recs_def)
  qed
qed

lemma add_collab_recs_notin:
  "p \<notin> (\<lambda>r. product_id (item r)) ` set ks \<Longrightarrow> map_of (add_collab_recs ks m) p = map_of m p"
  unfolding add_collab_recs_def
  by (induction ks arbitrary: m) (auto simp: update_conv' split: option.splits)

lemma add_collab_recs_in:
  "distinct (map (\<lambda>r. product_id (item r)) ks) \<Longrightarrow> k \<in> set ks \<Longrightarrow>
   map_of (add_collab_recs ks m) (product_id (item k)) =
     (case map_of m (product_id (item k)) of
        Some existing \<Rightarrow>
          Some (existing\<lparr>combined_score :=
                  map_option (\<lambda>c. c + similarity_score k * 0.4) (combined_score existing)\<rparr>)
      | None \<Rightarrow>
          Some (k\<lparr>combined_score := Some (similarity_score k * 0.4),
                   recommendation_type := hybrid\<rparr>))"
proof (induction ks arbitrary: m)
  case Nil
  then show ?case by simp
next
  case (Cons x ks)
  let ?m = "(case map_of m (product_id (item x)) of
               Some existing \<Rightarrow>
                 AList.update (product_id (item x))
                   (existing\<lparr>combined_score :=
                      map_option (\<lambda>c. c + similarity_score x * 0.4) (combined_score existing)\<rparr>)
                   m
             | None \<Rightarrow>
                 AList.update (product_id (item x))
                   (x\<lparr>combined_score := Some (similarity_score x * 0.4),
                        recommendation_type := hybrid\<rparr>)
                   m)"
  have step: "add_collab_recs (x # ks) m = add_collab_recs ks ?m"
    by (simp add: add_collab_recs_def)
  show ?case
  proof (cases "k = x")
    case True
    from Cons.prems(1) have "product_id (item x) \<notin> (\<lambda>r. product_id (item r)) ` set ks" by auto
    then have "map_of (add_collab_recs ks ?m) (product_id (item x)) = map_of ?m (product_id (item x))"
      by (rule add_collab_recs_notin)
    with True step show ?thesis by (simp add: update_conv' split: option.splits)
  next
    case False
    with Cons.prems have k: "k \<in> set ks" and d: "distinct (map (\<lambda>r. product_id (item r)) ks)" by auto
    from Cons.prems(1) k have ne: "product_id (item k) \<noteq> product_id (item x)" by (force simp: image_iff)
    have "map_of ?m (product_id (item k)) = map_of m (product_id (item k))"
      using ne by (simp add: update_conv' split: option.splits)
    with Cons.IH[OF d k, of ?m] step show ?thesis by simp
  qed
qed

text \<open>
  C4. In the map that \<^verbatim>\<open>getHybridRecommendations\<close> builds from a content list and a
  collaborative list (no list naming an item twice): an item of both lists has the
  combined score 0.6 times its content score plus 0.4 times its collaborative score; an
  item of the content list alone has 0.6 times its content score; an item of the
  collaborative list alone has 0.4 times its collaborative score.
\<close>

theorem hybrid_combined_scores:
  assumes dc: "distinct (map rec_id contentRecs)"
    and dk: "distinct (map rec_id collabRecs)"
  shows "(\<forall>c \<in> set contentRecs. \<forall>k \<in> set collabRecs. rec_id c = rec_id k \<longrightarrow>
            combined_score_of_item (combine_recs contentRecs collabRecs) (rec_id c)
              = Some (0.6 * similarity_score c + 0.4 * similarity_score k))
       \<and> (\<forall>c \<in> set contentRecs. rec_id c \<notin> rec_id ` set collabRecs \<longrightarrow>
            combined_score_of_item (combine_recs contentRecs collabRecs) (rec_id c)
              = Some (0.6 * similarity_score c))
       \<and> (\<forall>k \<in> set collabRecs. rec_id k \<notin> rec_id ` set contentRecs \<longrightarrow>
            combined_score_of_item (combine_recs contentRecs collabRecs) (rec_id k)
              = Some (0.4 * similarity_score k))"
proof (intro conjI ballI impI)
  fix c k assume c: "c \<in> set contentRecs" and k: "k \<in> set collabRecs" and e: "rec_id c = rec_id k"
  have "map_of (add_content_recs contentRecs []) (rec_id k) =
     Some (c\<lparr>combined_score := Some (similarity_score c * 0.6), recommendation_type := hybrid\<rparr>)"
    using add_content_recs_in[OF dc c, of "[]"] e by simp
  then show "combined_score_of_item (combine_recs contentRecs collabRecs) (rec_id c)
              = Some (0.6 * similarity_score c + 0.4 * similarity_score k)"
    using add_collab_recs_in[OF dk k, of "add_content_recs contentRecs []"] e
    by (simp add: combine_recs_def combined_score_of_item_def mult.commute)
next
  fix c assume c: "c \<in> set contentRecs" and n: "rec_id c \<notin> rec_id ` set collabRecs"
  show "combined_score_of_item (combine_recs contentRecs collabRecs) (rec_id c)
              = Some (0.6 * similarity_score c)"
    using add_collab_recs_notin[OF n, of "add_content_recs contentRecs []"]
      add_content_recs_in[OF dc c, of "[]"]
    by (simp add: combine_recs_def combined_score_of_item_def mult.commute)
next
  fix k assume k: "k \<in> set collabRecs" and n: "rec_id k \<notin> rec_id ` set contentRecs"
  show "combined_score_of_item (combine_recs contentRecs collabRecs) (rec_id k)
              = Some (0.4 * similarity_score k)"
    using add_collab_recs_in[OF dk k, of "add_content_recs contentRecs []"]
      add_content_recs_notin[OF n, of "[]"]
    by (simp add: combine_recs_def combined_score_of_item_def mult.commute)
qed

lemma recs_ex_distinct:
  "distinct (map rec_id content_recs_ex)" "distinct (map rec_id collab_recs_ex)"
  by (simp_all add: content_recs_ex_def collab_recs_ex_def item1_def item2_def item3_def
      mk_product_def)

theorem hybrid_combined_scores_witness:
  "distinct (map rec_id content_recs_ex) \<and> distinct (map rec_id collab_recs_ex)
   \<and> combined_score_of_item (combine_recs content_recs_ex collab_recs_ex) 2
       = Some (0.6 * (1 / 5) + 0.4 * 10)
   \<and> combined_score_of_item (combine_recs content_recs_ex collab_recs_ex) 1
       = Some (0.6 * (1 / 2))
   \<and> combined_score_of_item (combine_recs content_recs_ex collab_recs_ex) 3
       = Some (0.4 * 4)"
proof -
  note h = hybrid_combined_scores[OF recs_ex_distinct]
  have ids: "rec_id (content_recs_ex ! 0) = 1" "rec_id (content_recs_ex ! 1) = 2"
    "rec_id (collab_recs_ex ! 0) = 2" "rec_id (collab_recs_ex ! 1) = 3"
    by (simp_all add: content_recs_ex_def collab_recs_ex_def item1_def item2_def item3_def
        mk_product_def)
  have mem: "content_recs_ex ! 0 \<in> set content_recs_ex" "content_recs_ex ! 1 \<in> set content_recs_ex"
    "collab_recs_ex ! 0 \<in> set collab_recs_ex" "collab_recs_ex ! 1 \<in> set collab_recs_ex"
    by (simp_all add: content_recs_ex_def collab_recs_ex_def)
  have both: "combined_score_of_item (combine_recs content_recs_ex collab_recs_ex) 2
       = Some (0.6 * (1 / 5) + 0.4 * 10)"
    using h[THEN conjunct1, rule_format, OF mem(2) mem(3)] ids
    by (simp add: content_recs_ex_def collab_recs_ex_def)
  have only_c: "combined_score_of_item (combine_recs content_recs_ex collab_recs_ex) 1
       = Some (0.6 * (1 / 2))"
    using h[THEN conjunct2, THEN conjunct1, rule_format, OF mem(1)] ids
    by (simp add: content_recs_ex_def collab_recs_ex_def item1_def item2_def item3_def
        mk_product_def)
  have only_k: "combined_score_of_item (combine_recs content_recs_ex collab_recs_ex) 3
       = Some (0.4 * 4)"
    using h[THEN conjunct2, THEN conjunct2, rule_format, OF mem(4)] ids
    by (simp add: content_recs_ex_def collab_recs_ex_def item1_def item2_def item3_def
        mk_product_def)
  show ?thesis using recs_ex_distinct both only_c only_k by simp
qed

section \<open>The cold start of the hybrid mode\<close>

lemma content_cold:
  assumes "no_interactions w userId"
  shows "getContentBasedRecommendations w userId None limit = getFallbackRecommendations w limit"
proof -
  have "getContentBasedRecommendations_body w userId None limit = getFallbackRecommendations w limit
      \<or> isl (getContentBasedRecommendations_body w userId None limit)"
    using assms
    by (auto simp: getContentBasedRecommendations_body_def no_interactions_def await_def
        query_def split: option.splits)
  then show ?thesis
    by (auto simp: getContentBasedRecommendations_def try_catch_def fallback_returns isl_def)
qed

lemma collab_cold:
  assumes "no_interactions w userId"
  shows "getCollaborativeRecommendations w userId limit = getFallbackRecommendations w limit"
proof -
  have "getCollaborativeRecommendations_body w userId limit = getFallbackRecommendations w limit"
    using assms
    by (auto simp: getCollaborativeRecommendations_body_def no_interactions_def
        split: option.splits)
  then show ?thesis
    by (simp add: getCollaborativeRecommendations_def try_catch_def fallback_returns)
qed

lemma update_fresh: "k \<notin> fst ` set m \<Longrightarrow> AList.update k v m = m @ [(k, v)]"
  by (induction m) auto

lemma update_inside:
  "k \<notin> fst ` set pre \<Longrightarrow> AList.update k v (pre @ (k, u) # rest) = pre @ (k, v) # rest"
  by (induction pre) auto

lemma map_of_inside:
  "k \<notin> fst ` set pre \<Longrightarrow> map_of (pre @ (k, u) # rest) k = Some u"
  by (induction pre) auto

lemma add_content_recs_fresh:
  "distinct (map rec_id cs) \<Longrightarrow> rec_id ` set cs \<inter> fst ` set m = {} \<Longrightarrow>
   add_content_recs cs m =
     m @ map (\<lambda>r. (rec_id r, r\<lparr>combined_score := Some (similarity_score r * 0.6),
                                 recommendation_type := hybrid\<rparr>)) cs"
proof (induction cs arbitrary: m)
  case Nil
  then show ?case by (simp add: add_content_recs_def)
next
  case (Cons x cs)
  let ?v = "x\<lparr>combined_score := Some (similarity_score x * 0.6), recommendation_type := hybrid\<rparr>"
  from Cons.prems(2) have fresh: "rec_id x \<notin> fst ` set m" by auto
  have step: "add_content_recs (x # cs) m = add_content_recs cs (m @ [(rec_id x, ?v)])"
    by (simp add: add_content_recs_def update_fresh[OF fresh])
  have "rec_id ` set cs \<inter> fst ` set (m @ [(rec_id x, ?v)]) = {}"
    using Cons.prems by auto
  with Cons.IH[of "m @ [(rec_id x, ?v)]"] Cons.prems(1) step show ?case by simp
qed

lemma add_collab_recs_same:
  "distinct (map rec_id ks) \<Longrightarrow> rec_id ` set ks \<inter> fst ` set pre = {} \<Longrightarrow>
   add_collab_recs ks
     (pre @ map (\<lambda>r. (rec_id r, r\<lparr>combined_score := Some (similarity_score r * 0.6),
                                     recommendation_type := hybrid\<rparr>)) ks)
   = pre @ map (\<lambda>r. (rec_id r, blended_alone r)) ks"
proof (induction ks arbitrary: pre)
  case Nil
  then show ?case by (simp add: add_collab_recs_def)
next
  case (Cons x ks)
  let ?g = "\<lambda>r. (rec_id r, r\<lparr>combined_score := Some (similarity_score r * 0.6),
                                     recommendation_type := hybrid\<rparr>)"
  from Cons.prems(2) have fresh: "rec_id x \<notin> fst ` set pre" by auto
  let ?M = "pre @ map ?g (x # ks)"
  let ?v = "x\<lparr>combined_score := Some (similarity_score x * 0.6),
                recommendation_type := hybrid\<rparr>"
  have m: "map_of ?M (rec_id x) = Some ?v"
    using map_of_inside[OF fresh] by simp
  have e: "?v\<lparr>combined_score :=
                map_option (\<lambda>c. c + similarity_score x * 0.4) (combined_score ?v)\<rparr>
           = blended_alone x"
    by (cases x) (simp add: blended_alone_def)
  have u: "AList.update (rec_id x) (blended_alone x) ?M
           = (pre @ [(rec_id x, blended_alone x)]) @ map ?g ks"
    using update_inside[OF fresh] by simp
  have "add_collab_recs (x # ks) ?M
        = add_collab_recs ks (AList.update (rec_id x)
            (?v\<lparr>combined_score :=
                map_option (\<lambda>c. c + similarity_score x * 0.4) (combined_score ?v)\<rparr>) ?M)"
    by (simp only: add_collab_recs_def fold.simps o_apply m option.case)
  then have step: "add_collab_recs (x # ks) (pre @ map ?g (x # ks))
        = add_collab_recs ks ((pre @ [(rec_id x, blended_alone x)]) @ map ?g ks)"
    by (simp only: e u)
  have "rec_id ` set ks \<inter> fst ` set (pre @ [(rec_id x, blended_alone x)]) = {}"
    using Cons.prems by auto
  with Cons.IH[of "pre @ [(rec_id x, blended_alone x)]"] Cons.prems(1) step show ?case by simp
qed

lemma combine_recs_same:
  assumes "distinct (map rec_id fb)"
  shows "map snd (combine_recs fb fb) = map blended_alone fb"
  using add_content_recs_fresh[OF assms, of "[]"] add_collab_recs_same[OF assms, of "[]"]
  by (simp add: combine_recs_def comp_def)

lemma combined_of_blended_alone: "combined_of (blended_alone r) = similarity_score r"
  by (simp add: combined_of_def blended_alone_def)

lemma sort_desc_blended_alone:
  assumes "sorted_by_score_desc fb"
  shows "sort_desc combined_of (map blended_alone fb) = map blended_alone fb"
proof -
  have "sorted (map (\<lambda>x. - combined_of x) (map blended_alone fb))"
    using assms
    by (simp add: sorted_by_score_desc_def sorted_map sorted_wrt_map combined_of_blended_alone)
  then show ?thesis unfolding sort_desc_def by (rule sort_key_id_if_sorted)
qed

lemma fallback_distinct:
  assumes "distinct (map product_id (products (db w)))"
    and "getFallbackRecommendations w limit = Inr fb"
  shows "distinct (map rec_id fb)"
proof (cases "rejects (db w) ProductFindSorted")
  case True
  with assms(2) show ?thesis by (auto simp: fallback_returns)
next
  case False
  let ?ps = "limit_cursor limit (sort_key popularity_key (products (db w)))"
  from assms(1) have "distinct (map product_id (sort_key popularity_key (products (db w))))"
    by (simp add: distinct_map)
  then have "distinct (map product_id ?ps)"
    by (simp add: limit_cursor_def take_map[symmetric])
  moreover from assms(2) False
  have "map rec_id fb = map product_id ?ps"
    by (auto simp: fallback_returns comp_def)
  ultimately show ?thesis by simp
qed

lemma cold_start_blend:
  assumes cold: "no_interactions w userId"
    and ids: "distinct (map product_id (products (db w)))"
    and fb: "getFallbackRecommendations w 4 = Inr fb"
  shows "getHybridRecommendations w userId 5 = Inr (map blended_alone fb)"
proof -
  have d: "distinct (map rec_id fb)" using ids fb by (rule fallback_distinct)
  have r: "ranked_within 4 fb" using fb by (rule fallback_ranked)
  then have s: "sorted_by_score_desc fb" and l: "length fb \<le> 4"
    by (simp_all add: ranked_within_def)
  have sub: "sub_limit 5 = 4" by (simp add: sub_limit_def)
  have "getHybridRecommendations_body w userId 5 = Inr (map blended_alone fb)"
    using l by (simp add: getHybridRecommendations_body_def sub content_cold[OF cold]
        collab_cold[OF cold] fb await_def combine_recs_same[OF d] sort_desc_blended_alone[OF s])
  then show ?thesis by (simp add: getHybridRecommendations_def try_catch_def)
qed


lemma world5_cold: "no_interactions world5 ''new''"
  by (simp add: no_interactions_def world5_def User_findById_def engine3_def)

lemma world5_distinct: "distinct (map product_id (products (db world5)))"
  by (simp add: world5_def item1_def item2_def item3_def item4_def item5_def mk_product_def)

lemma world5_fallback_4:
  "getFallbackRecommendations world5 4 = Inr (map fallback_rec [item4, item2, item1, item3])"
  by (simp add: fallback_returns world5_def limit_cursor_def popularity_key_def fallback_rec_def
      item1_def item2_def item3_def item4_def item5_def mk_product_def)

lemma world5_fallback_5:
  "getFallbackRecommendations world5 5
   = Inr (map fallback_rec [item4, item2, item1, item3, item5])"
  by (simp add: fallback_returns world5_def limit_cursor_def popularity_key_def fallback_rec_def
      item1_def item2_def item3_def item4_def item5_def mk_product_def)

lemma world_ab_cold: "no_interactions world_ab ''Z''"
  by (simp add: no_interactions_def world_ab_db world_ab_matrix User_findById_def
      user_A_def user_B_def)

lemma world_ab_distinct: "distinct (map product_id (products (db world_ab)))"
  by (simp add: world_ab_db catalog3_def item1_def item2_def item3_def mk_product_def)

lemma world_ab_fallback_4:
  "getFallbackRecommendations world_ab 4 = Inr (map fallback_rec [item2, item1, item3])"
  by (simp add: fallback_returns world_ab_db limit_cursor_def popularity_key_def fallback_rec_def
      catalog3_def item1_def item2_def item3_def mk_product_def)

text \<open>
  C2 (as the code has it). For a user with zero recorded interactions, over a catalog
  with unique product ids, \<^verbatim>\<open>getHybridRecommendations(userId, 5)\<close> returns the records
  of the popularity fallback for the limit 4 (\<^verbatim>\<open>Math.ceil(5 * 0.7)\<close>), in the same
  order: at most four records, each tagged \<^verbatim>\<open>hybrid\<close> and carrying the combined
  score 0.6 s + 0.4 s of its fallback score s.
\<close>

theorem cold_start_hybrid:
  assumes "no_interactions w userId"
    and "distinct (map product_id (products (db w)))"
    and "getFallbackRecommendations w 4 = Inr fb"
  shows "getHybridRecommendations w userId 5 = Inr (map blended_alone fb) \<and> length fb \<le> 4"
proof -
  have "ranked_within 4 fb" using assms(3) by (rule fallback_ranked)
  then show ?thesis using cold_start_blend[OF assms] by (simp add: ranked_within_def)
qed

theorem cold_start_hybrid_witness:
  "no_interactions world_ab ''Z'' \<and> distinct (map product_id (products (db world_ab)))
   \<and> getFallbackRecommendations world_ab 4 = Inr (map fallback_rec [item2, item1, item3])
   \<and> getHybridRecommendations world_ab ''Z'' 5
       = Inr (map blended_alone (map fallback_rec [item2, item1, item3]))"
  using cold_start_hybrid[OF world_ab_cold world_ab_distinct world_ab_fallback_4]
  by (simp add: world_ab_cold world_ab_distinct world_ab_fallback_4)

text \<open>The claim as stated fails: over five items the hybrid mode returns four records,
  tagged \<^verbatim>\<open>hybrid\<close>, and the fallback for the limit 5 returns five, tagged
  \<^verbatim>\<open>fallback\<close>.\<close>

theorem cold_start_is_not_fallback_5:
  "no_interactions world5 ''new''
   \<and> getHybridRecommendations world5 ''new'' 5
       = Inr (map blended_alone (map fallback_rec [item4, item2, item1, item3]))
   \<and> getFallbackRecommendations world5 5
       = Inr (map fallback_rec [item4, item2, item1, item3, item5])
   \<and> recommendation_type (blended_alone (fallback_rec item4)) = hybrid
   \<and> getHybridRecommendations world5 ''new'' 5 \<noteq> getFallbackRecommendations world5 5"
  using cold_start_blend[OF world5_cold world5_distinct world5_fallback_4]
  by (simp add: world5_cold world5_fallback_5 blended_alone_def)

section \<open>The lists the hybrid mode blends\<close>

text \<open>The hybrid mode returns the top of the map built from what the two operations
  return.\<close>

lemma hybrid_is_blend:
  assumes "getContentBasedRecommendations w userId None (sub_limit limit) = Inr contentRecs"
    and "getCollaborativeRecommendations w userId (sub_limit limit) = Inr collabRecs"
  shows "getHybridRecommendations w userId limit
         = Inr (take limit (sort_desc combined_of (map snd (combine_recs contentRecs collabRecs))))"
  using assms
  by (simp add: getHybridRecommendations_def getHybridRecommendations_body_def await_def
      try_catch_def Let_def)

text \<open>Over a catalog with unique product ids, no list that the content-based or the
  collaborative operation returns names an item twice.\<close>

lemma similarities_loop_products:
  "map fst (similarities_loop e t ps)
   = filter (\<lambda>p. calculateProductSimilarity e t (product_id p) > 0) ps"
  by (induction ps) (auto simp: Let_def)

lemma distinct_map_sort_key: "distinct (map f xs) \<Longrightarrow> distinct (map f (sort_key k xs))"
  by (simp add: distinct_map)

lemma distinct_map_take: "distinct (map f xs) \<Longrightarrow> distinct (map f (take n xs))"
  by (simp add: take_map[symmetric])

lemma rank_similar_to_distinct:
  assumes ids: "distinct (map product_id (products (db w)))"
    and "rank_similar_to w t limit = Inr recs"
  shows "distinct (map rec_id recs)"
proof (cases "getFallbackRecommendations w limit = Inr recs")
  case True
  with ids show ?thesis by (rule fallback_distinct)
next
  case False
  with assms(2) obtain target tf where t: "t = Some target"
    and f: "productFeatures (eng w) (product_id target) = Some tf"
    by (auto simp: rank_similar_to_def split: option.splits)
  let ?all = "filter (\<lambda>p. product_id p \<noteq> product_id target) (products (db w))"
  let ?sims = "similarities_loop (eng w) (product_id target) ?all"
  let ?top = "take limit (sort_desc snd ?sims)"
  from assms(2) t f have recs: "recs = map (\<lambda>(product, similarity).
                              \<lparr>item = product, similarity_score = similarity,
                               recommendation_type = content_based, combined_score = None\<rparr>) ?top"
    by (auto simp: rank_similar_to_def await_def query_def Let_def split: if_splits)
  have "distinct (map product_id (map fst ?sims))"
    unfolding similarities_loop_products using ids by (intro distinct_map_filter)
  then have "distinct (map (\<lambda>x. product_id (fst x)) ?sims)" by (simp add: comp_def)
  then have "distinct (map (\<lambda>x. product_id (fst x)) ?top)"
    unfolding sort_desc_def by (intro distinct_map_take distinct_map_sort_key)
  moreover have "map rec_id recs = map (\<lambda>x. product_id (fst x)) ?top"
    by (simp add: recs case_prod_beta comp_def)
  ultimately show ?thesis by simp
qed

lemma content_distinct:
  assumes ids: "distinct (map product_id (products (db w)))"
    and res: "getContentBasedRecommendations w userId productId limit = Inr recs"
  shows "distinct (map rec_id recs)"
proof -
  have "getFallbackRecommendations w limit = Inr recs
        \<or> (\<exists>t. rank_similar_to w t limit = Inr recs)"
    using res
    by (auto simp: getContentBasedRecommendations_def getContentBasedRecommendations_body_def
        try_catch_def await_def query_def Let_def
        split: sum.splits option.splits if_splits list.splits)
  then show ?thesis
    using fallback_distinct[OF ids] rank_similar_to_distinct[OF ids] by blast
qed

lemma add_neighbour_items_distinct:
  "distinct (map fst recs) \<Longrightarrow> distinct (map fst (add_neighbour_items ui s nb recs))"
  unfolding add_neighbour_items_def
  by (induction nb arbitrary: recs) (auto simp: distinct_update Let_def)

lemma collect_recommendations_distinct:
  "distinct (map fst (collect_recommendations e ui sus))"
proof -
  have "distinct (map fst recs) \<Longrightarrow>
        distinct (map fst (fold (\<lambda>(similarUserId, similarity) recommendations.
             case map_of (userItemMatrix e) similarUserId of
               None \<Rightarrow> recommendations
             | Some similarUserInteractions \<Rightarrow>
                 add_neighbour_items ui similarity similarUserInteractions recommendations)
           sus recs))" for recs
    by (induction sus arbitrary: recs)
       (auto simp: add_neighbour_items_distinct split: option.splits)
  from this[of "[]"] show ?thesis by (simp add: collect_recommendations_def)
qed

lemma collab_distinct:
  assumes ids: "distinct (map product_id (products (db w)))"
    and res: "getCollaborativeRecommendations w userId limit = Inr recs"
  shows "distinct (map rec_id recs)"
proof (cases "getFallbackRecommendations w limit = Inr recs")
  case True
  with ids show ?thesis by (rule fallback_distinct)
next
  case nofb: False
  have body: "getCollaborativeRecommendations_body w userId limit = Inr recs"
    using res nofb
    by (cases "getCollaborativeRecommendations_body w userId limit")
       (simp_all add: getCollaborativeRecommendations_def try_catch_def)
  from body nofb obtain ui where ui: "map_of (userItemMatrix (eng w)) userId = Some ui"
    by (cases "map_of (userItemMatrix (eng w)) userId")
       (simp_all add: getCollaborativeRecommendations_body_def)
  let ?sus = "findSimilarUsers (eng w) userId 10"
  let ?sorted = "take limit (sort_desc snd (collect_recommendations (eng w) ui ?sus))"
  let ?ps = "filter (\<lambda>p. product_id p \<in> set (map fst ?sorted)) (products (db w))"
  let ?f = "\<lambda>(productId, score).
               case find (\<lambda>p. product_id p = productId) ?ps of
                 None \<Rightarrow> Inl TypeError
               | Some product \<Rightarrow>
                   Inr \<lparr>item = product, similarity_score = score,
                        recommendation_type = collaborative, combined_score = None\<rparr>"
  from body nofb ui obtain items where items: "map_throw ?f ?sorted = Inr items"
    and recs: "recs = filter (\<lambda>r. product_id (item r) \<noteq> 0) items"
    by (auto simp: getCollaborativeRecommendations_body_def Let_def await_def query_def
        split: if_splits sum.splits)
  have m: "map rec_id items = map fst ?sorted"
    by (rule map_throw_map[OF items]) (auto split: option.splits simp: find_Some_iff)
  have "distinct (map fst ?sorted)"
    unfolding sort_desc_def
    by (intro distinct_map_take distinct_map_sort_key collect_recommendations_distinct)
  with m have "distinct (map rec_id items)" by simp
  then show ?thesis unfolding recs by (rule distinct_map_filter)
qed

end
